theory Spec2Isabelle
  imports Main "HOL-Library.Word"
begin

text \<open>
  The terminal session bridge of OpenSpace exists in two variants. The Tauri API shim
  (unnamed/part\_000) keeps global and per-session listeners, a backlog of output per
  session and a delayed record of exit codes. The renderer bridge
  (renderer/src/bridge/openspaceBridge.ts and its later form unnamed/part\_001) calls the
  backend under several command names and argument shapes and keeps the recent output per
  session; the application component (unnamed/part\_002, renderer/src/App.tsx) maps panes
  to sessions on top of it. Both variants are modelled, each with its own state.
\<close>

section \<open>Strings, sets and slices as JavaScript has them\<close>

text \<open>
  A JavaScript string is a sequence of UTF-16 code units and \<open>length\<close> counts them, so
  a string is a list of 16-bit words. Session ids, pane ids and terminal data are such
  strings. A string is truthy exactly when it is not empty.
\<close>

type_synonym code_unit = "16 word"
type_synonym jsstring = "code_unit list"
type_synonym session_id = jsstring
type_synonym pane_id = jsstring

text \<open>A listener is a function object; only its identity matters to the registries.\<close>

type_synonym listener = nat

text \<open>
  \<open>String.prototype.slice(start)\<close>: a negative start counts from the end and is clamped
  at 0, a start beyond the end is clamped at the length.
\<close>

definition js_slice :: "int \<Rightarrow> 'a list \<Rightarrow> 'a list" where
  "js_slice start xs =
     (let len = int (length xs);
          k = (if start < 0 then max (len + start) 0 else min start len)
      in drop (nat k) xs)"

text \<open>
  A JavaScript \<open>Set\<close> keeps insertion order, holds each element once, and \<open>forEach\<close>
  visits the elements in that order: a list without repetition.
\<close>

definition set_add :: "'a \<Rightarrow> 'a list \<Rightarrow> 'a list" where
  "set_add x xs = (if x \<in> set xs then xs else xs @ [x])"

definition set_delete :: "'a \<Rightarrow> 'a list \<Rightarrow> 'a list" where
  "set_delete x xs = filter (\<lambda>y. y \<noteq> x) xs"

section \<open>The event multiplexer of the Tauri API shim (unnamed/part\_000)\<close>

text \<open>
  Every call of a listener is recorded in \<open>delivered\<close>, in the order of the calls. A global
  data listener receives the event \<open>{id, data}\<close>, a per-session data listener the data alone;
  likewise for exits. An exception thrown by a listener is caught and dropped by the
  caller, so it does not appear in the model. A listener is taken not to call back into
  the registry while it runs.
\<close>

datatype delivery =
    DataEvent listener session_id jsstring
  | SessionData listener jsstring
  | ExitEvent listener session_id int
  | SessionExit listener int

text \<open>
  The module-level registries. \<open>timers\<close> holds the callbacks passed to \<open>setTimeout\<close> that
  have not run yet, each with the time (in milliseconds) from which it may run and the
  session whose delayed exit record it deletes; \<open>now\<close> is the clock.
\<close>

record terminal_registry =
  terminalDataListeners :: "listener list"
  terminalExitListeners :: "listener list"
  terminalDataBySession :: "session_id \<rightharpoonup> jsstring"
  terminalExitBySession :: "session_id \<rightharpoonup> int"
  terminalSessionDataListeners :: "session_id \<rightharpoonup> listener list"
  terminalSessionExitListeners :: "session_id \<rightharpoonup> listener list"
  terminalSessionCwd :: "session_id \<rightharpoonup> jsstring"
  delivered :: "delivery list"
  timers :: "(nat \<times> session_id) list"
  now :: nat

definition TERMINAL_BUFFER_LIMIT :: nat where
  "TERMINAL_BUFFER_LIMIT = 1024 * 1024"

definition EXIT_RETENTION_MS :: nat where
  "EXIT_RETENTION_MS = 30000"

definition empty_registry :: terminal_registry where
  "empty_registry =
     \<lparr> terminalDataListeners = [], terminalExitListeners = [],
       terminalDataBySession = Map.empty, terminalExitBySession = Map.empty,
       terminalSessionDataListeners = Map.empty, terminalSessionExitListeners = Map.empty,
       terminalSessionCwd = Map.empty, delivered = [], timers = [], now = 0 \<rparr>"

text \<open>\<open>addPerSessionListener(store, sessionId, listener)\<close> and the unsubscribe closure it returns.\<close>

definition addPerSessionListener ::
  "(session_id \<rightharpoonup> listener list) \<Rightarrow> session_id \<Rightarrow> listener \<Rightarrow> (session_id \<rightharpoonup> listener list)" where
  "addPerSessionListener store sessionId l =
     (case store sessionId of
        None \<Rightarrow> store(sessionId \<mapsto> set_add l [])
      | Some s \<Rightarrow> store(sessionId \<mapsto> set_add l s))"

definition removePerSessionListener ::
  "(session_id \<rightharpoonup> listener list) \<Rightarrow> session_id \<Rightarrow> listener \<Rightarrow> (session_id \<rightharpoonup> listener list)" where
  "removePerSessionListener store sessionId l =
     (case store sessionId of
        None \<Rightarrow> store
      | Some current \<Rightarrow>
          (let current' = set_delete l current
           in if length current' = 0 then store(sessionId := None)
              else store(sessionId \<mapsto> current')))"

text \<open>
  The listeners of a session that \<open>emitTerminalData\<close> and \<open>emitTerminalExit\<close> deliver to:
  the entry of the store when it exists and its size is positive.
\<close>

definition live_listeners :: "(session_id \<rightharpoonup> listener list) \<Rightarrow> session_id \<Rightarrow> listener list" where
  "live_listeners store sessionId =
     (case store sessionId of None \<Rightarrow> [] | Some s \<Rightarrow> s)"

text \<open>The capped append of \<open>emitTerminalData\<close>: \<open>previous + data\<close>, cut to its last
  \<open>TERMINAL_BUFFER_LIMIT\<close> code units.\<close>

definition buffer_append :: "jsstring option \<Rightarrow> jsstring \<Rightarrow> jsstring" where
  "buffer_append previous data =
     (let next = (case previous of None \<Rightarrow> [] | Some b \<Rightarrow> b) @ data
      in if length next > TERMINAL_BUFFER_LIMIT
         then js_slice (int (length next) - int TERMINAL_BUFFER_LIMIT) next
         else next)"

definition emitTerminalData :: "terminal_registry \<Rightarrow> session_id \<Rightarrow> jsstring \<Rightarrow> terminal_registry" where
  "emitTerminalData st sessionId data =
     (let st1 = st\<lparr>delivered := delivered st
                     @ map (\<lambda>fn. DataEvent fn sessionId data) (terminalDataListeners st)\<rparr>;
          sessionListeners = live_listeners (terminalSessionDataListeners st1) sessionId
      in if length sessionListeners > 0
         then st1\<lparr>delivered := delivered st1 @ map (\<lambda>fn. SessionData fn data) sessionListeners\<rparr>
         else st1\<lparr>terminalDataBySession := (terminalDataBySession st1)
                     (sessionId \<mapsto> buffer_append (terminalDataBySession st1 sessionId) data)\<rparr>)"

text \<open>
  \<open>emitTerminalExit\<close>. Without a per-session exit listener the code is stored and a timer
  of 30000 ms is started that deletes it. The last four deletions are unconditional.
\<close>

definition emitTerminalExit :: "terminal_registry \<Rightarrow> session_id \<Rightarrow> int \<Rightarrow> terminal_registry" where
  "emitTerminalExit st sessionId code =
     (let st1 = st\<lparr>delivered := delivered st
                     @ map (\<lambda>fn. ExitEvent fn sessionId code) (terminalExitListeners st)\<rparr>;
          sessionListeners = live_listeners (terminalSessionExitListeners st1) sessionId;
          st2 = (if length sessionListeners > 0
                 then st1\<lparr>delivered := delivered st1 @ map (\<lambda>fn. SessionExit fn code) sessionListeners\<rparr>
                 else st1\<lparr>terminalExitBySession := (terminalExitBySession st1)(sessionId \<mapsto> code),
                          timers := timers st1 @ [(now st1 + EXIT_RETENTION_MS, sessionId)]\<rparr>)
      in st2\<lparr>terminalDataBySession := (terminalDataBySession st2)(sessionId := None),
             terminalSessionDataListeners := (terminalSessionDataListeners st2)(sessionId := None),
             terminalSessionExitListeners := (terminalSessionExitListeners st2)(sessionId := None),
             terminalSessionCwd := (terminalSessionCwd st2)(sessionId := None)\<rparr>)"

text \<open>
  The passing of time: the clock moves forward by \<open>d\<close> milliseconds and every timer that
  has become due runs, deleting the delayed exit record of its session.
\<close>

definition elapse :: "nat \<Rightarrow> terminal_registry \<Rightarrow> terminal_registry" where
  "elapse d st =
     (let t = now st + d;
          due = filter (\<lambda>(at, s). at \<le> t) (timers st)
      in st\<lparr>terminalExitBySession :=
               foldl (\<lambda>m (at, s). m(s := None)) (terminalExitBySession st) due,
             timers := filter (\<lambda>(at, s). \<not> at \<le> t) (timers st),
             now := t\<rparr>)"

text \<open>
  \<open>terminal.onDataForSession\<close> and \<open>terminal.onExitForSession\<close>. Each returns the
  unsubscribe closure of \<open>addPerSessionListener\<close>, which is \<open>removePerSessionListener\<close> on the
  same store, session and listener; the state below is the state at the return.
  An empty string is falsy, so an empty backlog is neither delivered nor deleted.
\<close>

definition onDataForSession :: "terminal_registry \<Rightarrow> session_id \<Rightarrow> listener \<Rightarrow> terminal_registry" where
  "onDataForSession st sessionId l =
     (let st1 = st\<lparr>terminalSessionDataListeners :=
                     addPerSessionListener (terminalSessionDataListeners st) sessionId l\<rparr>
      in case terminalDataBySession st1 sessionId of
           None \<Rightarrow> st1
         | Some buffered \<Rightarrow>
             if buffered = [] then st1
             else st1\<lparr>terminalDataBySession := (terminalDataBySession st1)(sessionId := None),
                      delivered := delivered st1 @ [SessionData l buffered]\<rparr>)"

definition onExitForSession :: "terminal_registry \<Rightarrow> session_id \<Rightarrow> listener \<Rightarrow> terminal_registry" where
  "onExitForSession st sessionId l =
     (let st1 = st\<lparr>terminalSessionExitListeners :=
                     addPerSessionListener (terminalSessionExitListeners st) sessionId l\<rparr>
      in case terminalExitBySession st1 sessionId of
           None \<Rightarrow> st1
         | Some code \<Rightarrow>
             st1\<lparr>terminalExitBySession := (terminalExitBySession st1)(sessionId := None),
                 delivered := delivered st1 @ [SessionExit l code]\<rparr>)"

subsection \<open>The public terminal operations of the shim\<close>

text \<open>
  The public terminal operations of the shim take whatever value the caller passes as a
  session id; \<open>isNonEmptyString\<close> lets only a string of positive length through.
\<close>

datatype js_value = JUndefined | JNull | JBoolean bool | JNumber int | JString jsstring

definition isNonEmptyString :: "js_value \<Rightarrow> bool" where
  "isNonEmptyString v = (case v of JString s \<Rightarrow> length s > 0 | _ \<Rightarrow> False)"

text \<open>
  The requests sent to the backend. Columns and rows are integer-valued numbers.
  A create request of the renderer carries \<open>cwd\<close> (possibly undefined), \<open>cols\<close> and \<open>rows\<close>;
  a kill request carries an optional signal.
\<close>

datatype request =
    CreateRequest "jsstring option" int int
  | WriteRequest session_id jsstring
  | ResizeRequest session_id int int
  | KillRequest session_id "jsstring option"

text \<open>
  The arguments of one \<open>invoke\<close>: none, the request wrapped as \<open>{request}\<close>, or the request's
  own fields (\<open>toRecord(request)\<close>).
\<close>

datatype invoke_args = NoArgs | Wrapped request | Flat request

type_synonym invocation = "string \<times> invoke_args"

text \<open>
  \<open>terminal.write\<close>, \<open>terminal.resize\<close> and \<open>terminal.destroy\<close> of the shim. Each returns the
  backend invocations it makes; a rejection of the invocation is swallowed by
  \<open>.catch(() => {})\<close> and has no further effect. \<open>cols || 1\<close> replaces a falsy number by 1.
\<close>

definition terminal_write :: "js_value \<Rightarrow> jsstring \<Rightarrow> invocation list" where
  "terminal_write ident data =
     (if \<not> isNonEmptyString ident then []
      else case ident of
             JString sid \<Rightarrow> [(''terminal_write'', Wrapped (WriteRequest sid data))]
           | _ \<Rightarrow> [])"

definition terminal_resize :: "js_value \<Rightarrow> int \<Rightarrow> int \<Rightarrow> invocation list" where
  "terminal_resize ident cols rows =
     (if \<not> isNonEmptyString ident then []
      else case ident of
             JString sid \<Rightarrow>
               [(''terminal_resize'',
                 Wrapped (ResizeRequest sid (if cols = 0 then 1 else cols) (if rows = 0 then 1 else rows)))]
           | _ \<Rightarrow> [])"

definition terminal_destroy :: "terminal_registry \<Rightarrow> js_value \<Rightarrow> invocation list \<times> terminal_registry" where
  "terminal_destroy st ident =
     (if \<not> isNonEmptyString ident then ([], st)
      else case ident of
             JString sid \<Rightarrow>
               ([(''terminal_kill'', Wrapped (KillRequest sid None))],
                st\<lparr>terminalDataBySession := (terminalDataBySession st)(sid := None),
                   terminalExitBySession := (terminalExitBySession st)(sid := None),
                   terminalSessionCwd := (terminalSessionCwd st)(sid := None)\<rparr>)
           | _ \<Rightarrow> ([], st))"


section \<open>The renderer bridge (renderer/src/bridge/openspaceBridge.ts, unnamed/part\_001)\<close>

text \<open>
  \<open>appendTerminalOutput\<close> on the map \<open>terminalOutputBySession\<close>: the new data is appended to
  the stored text and the last 8000 code units are kept. This is all the function does in
  openspaceBridge.ts.
\<close>

definition appendTerminalOutput ::
  "(session_id \<rightharpoonup> jsstring) \<Rightarrow> session_id \<Rightarrow> jsstring \<Rightarrow> (session_id \<rightharpoonup> jsstring)" where
  "appendTerminalOutput m sessionId data =
     (let current = (case m sessionId of None \<Rightarrow> [] | Some c \<Rightarrow> c);
          combined = current @ data
      in m(sessionId \<mapsto> js_slice (- 8000) combined))"

subsection \<open>Calls to the backend, with fallbacks\<close>

text \<open>
  What a failed call throws: null or undefined, the error of \<open>invokeCommand\<close> without a
  runtime, the generic error of \<open>invokeWithFallbacks\<close> for an action, whatever value the
  backend rejected with, the error of reading a field of an undefined response, or the
  error of \<open>ensurePaneSession\<close> for a pane without a runtime.
\<close>

datatype thrown =
    Nullish
  | TauriInvokeUnavailable
  | ActionFailed string
  | BackendError string
  | TypeError
  | RuntimeMissing pane_id

text \<open>
  The Tauri \<open>invoke\<close> function answers a command and its arguments with a rejection or a
  response. \<open>loadInvoke\<close> yields it when the Tauri runtime is present and null otherwise.
\<close>

type_synonym 'r backend = "string \<Rightarrow> invoke_args \<Rightarrow> thrown + 'r"

definition invokeCommand :: "'r backend option \<Rightarrow> string \<Rightarrow> invoke_args \<Rightarrow> invocation list \<times> (thrown + 'r)" where
  "invokeCommand rt command args =
     (case rt of
        None \<Rightarrow> ([], Inl TauriInvokeUnavailable)
      | Some invoke \<Rightarrow> ([(command, args)], invoke command args))"

text \<open>
  \<open>invokeWithFallbacks\<close>: the inner loop over the argument variants and the outer loop over
  the command names. Each returns the invocations made and either the value returned from
  inside the loop (\<open>Inr\<close>) or \<open>lastError\<close> as the loop leaves it (\<open>Inl\<close>).
\<close>

fun try_variants ::
  "'r backend option \<Rightarrow> string \<Rightarrow> invoke_args list \<Rightarrow> thrown \<Rightarrow> invocation list \<times> (thrown + 'r)" where
  "try_variants rt command [] lastError = ([], Inl lastError)"
| "try_variants rt command (args # rest) lastError =
     (case invokeCommand rt command args of
        (sent, Inr r) \<Rightarrow> (sent, Inr r)
      | (sent, Inl error) \<Rightarrow>
          (case try_variants rt command rest error of (sent', res) \<Rightarrow> (sent @ sent', res)))"

fun try_commands ::
  "'r backend option \<Rightarrow> string list \<Rightarrow> invoke_args list \<Rightarrow> thrown \<Rightarrow> invocation list \<times> (thrown + 'r)" where
  "try_commands rt [] argsVariants lastError = ([], Inl lastError)"
| "try_commands rt (command # rest) argsVariants lastError =
     (case try_variants rt command argsVariants lastError of
        (sent, Inr r) \<Rightarrow> (sent, Inr r)
      | (sent, Inl lastError') \<Rightarrow>
          (case try_commands rt rest argsVariants lastError' of (sent', res) \<Rightarrow> (sent @ sent', res)))"

definition invokeWithFallbacks ::
  "'r backend option \<Rightarrow> string \<Rightarrow> string list \<Rightarrow> invoke_args list \<Rightarrow> invocation list \<times> (thrown + 'r)" where
  "invokeWithFallbacks rt action commands argsVariants =
     (case try_commands rt commands argsVariants Nullish of
        (sent, Inr r) \<Rightarrow> (sent, Inr r)
      | (sent, Inl lastError) \<Rightarrow>
          (sent, Inl (if lastError = Nullish then ActionFailed (action @ '' failed'') else lastError)))"

subsection \<open>The state of the renderer\<close>

text \<open>
  The answer of the backend: the response of a create command, \<open>{sessionId, pid}\<close>, or
  nothing (the commands that return void).
\<close>

datatype response = Created session_id int | Done

text \<open>
  The status of a pane in the view and what is written to its terminal surface. The text
  of \<open>outputPreview\<close> is not modelled.
\<close>

datatype terminal_status = StatusIdle | StatusRunning | StatusSuccess | StatusError

datatype surface_write = Output jsstring | ExitMarker int

text \<open>
  The listeners registered with the bridge. The application registers one output listener
  and one exit listener; any other listener has no effect on the state modelled here.
\<close>

datatype bridge_listener = AppOutputListener | AppExitListener | OtherListener nat

text \<open>
  The state of the renderer: the bridge's module variables, the view state
  \<open>terminalPanes\<close> (session id and status of each pane), and the references of the
  application component. A runtime is the terminal of a pane, with its columns and rows.
  \<open>createCalls\<close> lists the calls of \<open>createTerminal\<close> made so far, each with the promise it
  returned, the pane it was made for and its request; \<open>settled\<close> holds the outcome of the
  promises that are no longer pending; \<open>invocations\<close> lists what was sent to the backend.
\<close>

record app_state =
  terminalOutputBySession :: "session_id \<rightharpoonup> jsstring"
  terminalOutputListeners :: "bridge_listener list"
  terminalExitListenersB :: "bridge_listener list"
  terminalPanes :: "pane_id \<rightharpoonup> (session_id option \<times> terminal_status)"
  terminalCwd :: "jsstring option"
  paneSessionMapRef :: "pane_id \<rightharpoonup> session_id"
  sessionPaneMapRef :: "session_id \<rightharpoonup> pane_id"
  creatingSessionRef :: "pane_id \<rightharpoonup> nat"
  terminalRuntimesRef :: "pane_id \<rightharpoonup> (int \<times> int)"
  surface :: "(pane_id \<times> surface_write) list"
  createCalls :: "(nat \<times> pane_id \<times> request) list"
  settled :: "nat \<rightharpoonup> (thrown + session_id)"
  invocations :: "invocation list"
  nextPromise :: nat

definition empty_app :: app_state where
  "empty_app =
     \<lparr> terminalOutputBySession = Map.empty, terminalOutputListeners = [],
       terminalExitListenersB = [], terminalPanes = Map.empty, terminalCwd = None,
       paneSessionMapRef = Map.empty, sessionPaneMapRef = Map.empty,
       creatingSessionRef = Map.empty, terminalRuntimesRef = Map.empty, surface = [],
       createCalls = [], settled = Map.empty, invocations = [], nextPromise = 0 \<rparr>"

text \<open>A value read from a map of strings is truthy when it is there and not empty.\<close>

definition truthy :: "jsstring option \<Rightarrow> bool" where
  "truthy v = (case v of None \<Rightarrow> False | Some s \<Rightarrow> s \<noteq> [])"

definition updatePane ::
  "app_state \<Rightarrow> pane_id \<Rightarrow> (session_id option \<times> terminal_status \<Rightarrow> session_id option \<times> terminal_status)
     \<Rightarrow> app_state" where
  "updatePane st paneId mutator =
     (case terminalPanes st paneId of
        None \<Rightarrow> st
      | Some pane \<Rightarrow> st\<lparr>terminalPanes := (terminalPanes st)(paneId \<mapsto> mutator pane)\<rparr>)"

subsection \<open>The bridge operations of unnamed/part\_001\<close>

text \<open>
  The asynchronous bridge operations are run to their end in one step: the backend answers
  through \<open>rt\<close>, and no other handler runs between the call and its outcome. The outcome
  is \<open>Inr\<close> for a fulfilled and \<open>Inl\<close> for a rejected promise.
\<close>

definition call_output_listener :: "app_state \<Rightarrow> bridge_listener \<Rightarrow> session_id \<Rightarrow> jsstring \<Rightarrow> app_state" where
  "call_output_listener st l sessionId data =
     (case l of
        AppOutputListener \<Rightarrow>
          (case sessionPaneMapRef st sessionId of
             None \<Rightarrow> st
           | Some paneId \<Rightarrow>
               if paneId = [] then st
               else (case terminalRuntimesRef st paneId of
                       None \<Rightarrow> st
                     | Some runtime \<Rightarrow> st\<lparr>surface := surface st @ [(paneId, Output data)]\<rparr>))
      | _ \<Rightarrow> st)"

definition appendTerminalOutput_notify :: "app_state \<Rightarrow> session_id \<Rightarrow> jsstring \<Rightarrow> app_state" where
  "appendTerminalOutput_notify st sessionId data =
     (let st1 = st\<lparr>terminalOutputBySession :=
                     appendTerminalOutput (terminalOutputBySession st) sessionId data\<rparr>
      in foldl (\<lambda>s l. call_output_listener s l sessionId data) st1 (terminalOutputListeners st1))"

definition writeTerminal ::
  "response backend option \<Rightarrow> app_state \<Rightarrow> session_id \<Rightarrow> jsstring \<Rightarrow> app_state \<times> (thrown + unit)" where
  "writeTerminal rt st sessionId data =
     (if sessionId = [] then (st, Inr ())
      else if rt = None then (appendTerminalOutput_notify st sessionId data, Inr ())
      else (let req = WriteRequest sessionId data in
            case invokeWithFallbacks rt ''terminal.write'' [''terminal_write'', ''terminal:write'']
                   [Wrapped req, Flat req] of
              (sent, Inr r) \<Rightarrow> (st\<lparr>invocations := invocations st @ sent\<rparr>, Inr ())
            | (sent, Inl error) \<Rightarrow> (st\<lparr>invocations := invocations st @ sent\<rparr>, Inl error)))"

definition resizeTerminal ::
  "response backend option \<Rightarrow> app_state \<Rightarrow> session_id \<Rightarrow> int \<Rightarrow> int \<Rightarrow> app_state \<times> (thrown + unit)" where
  "resizeTerminal rt st sessionId cols rows =
     (if sessionId = [] then (st, Inr ())
      else (let req = ResizeRequest sessionId cols rows in
            if rt = None then (st, Inr ())
            else case invokeWithFallbacks rt ''terminal.resize'' [''terminal_resize'', ''terminal:resize'']
                        [Wrapped req, Flat req] of
                   (sent, Inr r) \<Rightarrow> (st\<lparr>invocations := invocations st @ sent\<rparr>, Inr ())
                 | (sent, Inl error) \<Rightarrow> (st\<lparr>invocations := invocations st @ sent\<rparr>, Inl error)))"

definition killTerminal ::
  "response backend option \<Rightarrow> app_state \<Rightarrow> session_id \<Rightarrow> jsstring option \<Rightarrow> app_state \<times> (thrown + unit)" where
  "killTerminal rt st sessionId signal =
     (if sessionId = [] then (st, Inr ())
      else (let req = KillRequest sessionId signal in
            if rt = None
            then (st\<lparr>terminalOutputBySession := (terminalOutputBySession st)(sessionId := None)\<rparr>, Inr ())
            else case invokeWithFallbacks rt ''terminal.kill'' [''terminal_kill'', ''terminal:kill'']
                        [Wrapped req, Flat req] of
                   (sent, Inr r) \<Rightarrow>
                     (st\<lparr>invocations := invocations st @ sent,
                         terminalOutputBySession := (terminalOutputBySession st)(sessionId := None)\<rparr>,
                      Inr ())
                 | (sent, Inl error) \<Rightarrow> (st\<lparr>invocations := invocations st @ sent\<rparr>, Inl error)))"

text \<open>
  \<open>createTerminal\<close>. Without a runtime it answers with a mock id made from the clock and a
  random number, given here as \<open>mockId\<close>. The subscription to the backend events that it
  awaits first is not modelled.
\<close>

definition createTerminal ::
  "response backend option \<Rightarrow> app_state \<Rightarrow> request \<Rightarrow> session_id \<Rightarrow> app_state \<times> (thrown + session_id)" where
  "createTerminal rt st normalizedRequest mockId =
     (if rt = None then (st, Inr mockId)
      else case invokeWithFallbacks rt ''terminal.create'' [''terminal_create'', ''terminal:create'']
                  [Wrapped normalizedRequest, Flat normalizedRequest] of
             (sent, Inr (Created sessionId pid)) \<Rightarrow>
               (st\<lparr>invocations := invocations st @ sent,
                   terminalOutputBySession := (terminalOutputBySession st)(sessionId \<mapsto> [])\<rparr>,
                Inr sessionId)
           | (sent, Inr Done) \<Rightarrow> (st\<lparr>invocations := invocations st @ sent\<rparr>, Inl TypeError)
           | (sent, Inl error) \<Rightarrow> (st\<lparr>invocations := invocations st @ sent\<rparr>, Inl error))"

subsection \<open>The pane runtime controller of unnamed/part\_002\<close>

text \<open>
  \<open>resizePaneTerminal\<close>. \<open>fitAddon.fit()\<close> sets the columns and rows of the terminal from
  the geometry of its host element; \<open>fit\<close> stands for that. The promise of
  \<open>resizeTerminal\<close> is dropped (\<open>void\<close>), its rejection is only logged.
\<close>

definition resizePaneTerminal ::
  "response backend option \<Rightarrow> (int \<times> int \<Rightarrow> int \<times> int) \<Rightarrow> app_state \<Rightarrow> pane_id \<Rightarrow> app_state" where
  "resizePaneTerminal rt fit st paneId =
     (case terminalRuntimesRef st paneId of
        None \<Rightarrow> st
      | Some runtime \<Rightarrow>
          (let terminal = fit runtime;
               st1 = st\<lparr>terminalRuntimesRef := (terminalRuntimesRef st)(paneId \<mapsto> terminal)\<rparr>
           in case paneSessionMapRef st1 paneId of
                None \<Rightarrow> st1
              | Some sessionId \<Rightarrow>
                  if sessionId = [] then st1
                  else (let cols = max 2 (fst terminal);
                            rows = max 2 (snd terminal)
                        in fst (resizeTerminal rt st1 sessionId cols rows))))"

text \<open>
  \<open>ensurePaneSession\<close> is asynchronous. What its caller holds is a promise: already
  fulfilled with the existing session id, the promise of the creation in flight, the
  function's own promise while it waits for the runtime of the pane (with the number of
  the wait), or a rejected one.
\<close>

datatype ensure_outcome =
    Resolved session_id
  | Pending nat
  | Waiting nat
  | Rejected thrown

text \<open>
  The call of \<open>createTerminal\<close> and the registration of its promise in
  \<open>creatingSessionRef\<close>; both happen without an await in between.
\<close>

definition issueCreate :: "app_state \<Rightarrow> pane_id \<Rightarrow> int \<times> int \<Rightarrow> ensure_outcome \<times> app_state" where
  "issueCreate st paneId terminal =
     (let createSessionPromise = nextPromise st;
          req = CreateRequest (terminalCwd st) (max 2 (fst terminal)) (max 2 (snd terminal))
      in (Pending createSessionPromise,
          st\<lparr>createCalls := createCalls st @ [(createSessionPromise, paneId, req)],
             creatingSessionRef := (creatingSessionRef st)(paneId \<mapsto> createSessionPromise),
             nextPromise := createSessionPromise + 1\<rparr>))"

text \<open>The function up to its first await, or to its return when it does not await.\<close>

definition ensurePaneSession :: "app_state \<Rightarrow> pane_id \<Rightarrow> ensure_outcome \<times> app_state" where
  "ensurePaneSession st paneId =
     (case (if truthy (paneSessionMapRef st paneId) then paneSessionMapRef st paneId else None) of
        Some existing \<Rightarrow> (Resolved existing, st)
      | None \<Rightarrow>
          (case creatingSessionRef st paneId of
             Some inFlight \<Rightarrow> (Pending inFlight, st)
           | None \<Rightarrow>
               (case terminalRuntimesRef st paneId of
                  Some runtime \<Rightarrow> issueCreate st paneId runtime
                | None \<Rightarrow> (Waiting 0, st))))"

text \<open>
  The function after the wait number \<open>attempt\<close> (counted from 0) of its loop: it looks for
  the runtime again, and gives up after 24 waits. It does not look at
  \<open>paneSessionMapRef\<close> or \<open>creatingSessionRef\<close> again.
\<close>

definition ensurePaneSession_resume :: "app_state \<Rightarrow> pane_id \<Rightarrow> nat \<Rightarrow> ensure_outcome \<times> app_state" where
  "ensurePaneSession_resume st paneId attempt =
     (case terminalRuntimesRef st paneId of
        Some runtime \<Rightarrow> issueCreate st paneId runtime
      | None \<Rightarrow>
          if attempt + 1 < 24 then (Waiting (attempt + 1), st)
          else (Rejected (RuntimeMissing paneId), st))"

text \<open>
  The continuations of the promise of \<open>createTerminal\<close>: \<open>then\<close> and \<open>finally\<close> when it is
  fulfilled, \<open>catch\<close> and \<open>finally\<close> when it is rejected.
\<close>

definition createSession_fulfilled ::
  "response backend option \<Rightarrow> (int \<times> int \<Rightarrow> int \<times> int) \<Rightarrow> app_state \<Rightarrow> pane_id \<Rightarrow> nat \<Rightarrow> session_id
     \<Rightarrow> app_state" where
  "createSession_fulfilled rt fit st paneId promise sessionId =
     (let st1 = st\<lparr>paneSessionMapRef := (paneSessionMapRef st)(paneId \<mapsto> sessionId),
                    sessionPaneMapRef := (sessionPaneMapRef st)(sessionId \<mapsto> paneId)\<rparr>;
          st2 = updatePane st1 paneId (\<lambda>pane. (Some sessionId, StatusIdle));
          st3 = resizePaneTerminal rt fit st2 paneId
      in st3\<lparr>creatingSessionRef := (creatingSessionRef st3)(paneId := None),
             settled := (settled st3)(promise \<mapsto> Inr sessionId)\<rparr>)"

definition createSession_rejected :: "app_state \<Rightarrow> pane_id \<Rightarrow> nat \<Rightarrow> thrown \<Rightarrow> app_state" where
  "createSession_rejected st paneId promise error =
     (let st1 = updatePane st paneId (\<lambda>pane. (None, StatusError))
      in st1\<lparr>creatingSessionRef := (creatingSessionRef st1)(paneId := None),
             settled := (settled st1)(promise \<mapsto> Inl error)\<rparr>)"

text \<open>
  The settling of one call of \<open>createTerminal\<close>: the bridge runs it, the controller
  continues. What the creation sends to the backend is recorded when it settles.
\<close>

definition settleCreate ::
  "response backend option \<Rightarrow> (int \<times> int \<Rightarrow> int \<times> int) \<Rightarrow> app_state \<Rightarrow> nat \<times> pane_id \<times> request
     \<Rightarrow> session_id \<Rightarrow> app_state" where
  "settleCreate rt fit st call mockId =
     (case call of (promise, paneId, req) \<Rightarrow>
        (case createTerminal rt st req mockId of
           (st1, Inr sessionId) \<Rightarrow> createSession_fulfilled rt fit st1 paneId promise sessionId
         | (st1, Inl error) \<Rightarrow> createSession_rejected st1 paneId promise error))"

text \<open>
  \<open>disposePaneRuntime\<close>. The promise of \<open>killTerminal\<close> is dropped, its rejection is only
  logged.
\<close>

definition disposePaneRuntime ::
  "response backend option \<Rightarrow> app_state \<Rightarrow> pane_id \<Rightarrow> bool \<Rightarrow> bool \<Rightarrow> app_state" where
  "disposePaneRuntime rt st paneId killSession resetPaneState =
     (let st1 = st\<lparr>terminalRuntimesRef := (terminalRuntimesRef st)(paneId := None)\<rparr>;
          sessionId = paneSessionMapRef st1 paneId;
          st2 = st1\<lparr>paneSessionMapRef := (paneSessionMapRef st1)(paneId := None),
                     creatingSessionRef := (creatingSessionRef st1)(paneId := None)\<rparr>;
          st3 = (case sessionId of
                   None \<Rightarrow> st2
                 | Some sid \<Rightarrow>
                     if sid = [] then st2
                     else (let st2' = st2\<lparr>sessionPaneMapRef := (sessionPaneMapRef st2)(sid := None)\<rparr>
                           in if killSession then fst (killTerminal rt st2' sid None) else st2'))
      in if resetPaneState then updatePane st3 paneId (\<lambda>pane. (None, StatusIdle)) else st3)"

text \<open>The callback of \<open>terminal.onData\<close>: the keystrokes of a pane.\<close>

definition pane_onData :: "response backend option \<Rightarrow> app_state \<Rightarrow> pane_id \<Rightarrow> jsstring \<Rightarrow> app_state" where
  "pane_onData rt st paneId data =
     (case paneSessionMapRef st paneId of
        None \<Rightarrow> st
      | Some sessionId \<Rightarrow>
          if sessionId = [] then st
          else (case writeTerminal rt st sessionId data of
                  (st1, Inr u) \<Rightarrow> st1
                | (st1, Inl error) \<Rightarrow> updatePane st1 paneId (\<lambda>pane. (fst pane, StatusError))))"

text \<open>
  The exit listener that the application registers with \<open>onTerminalExit\<close>, and
  \<open>handleTerminalExit\<close> of the bridge, which calls the registered listeners.
\<close>

definition call_exit_listener :: "app_state \<Rightarrow> bridge_listener \<Rightarrow> session_id \<Rightarrow> int \<Rightarrow> app_state" where
  "call_exit_listener st l sessionId exitCode =
     (case l of
        AppExitListener \<Rightarrow>
          (case sessionPaneMapRef st sessionId of
             None \<Rightarrow> st
           | Some paneId \<Rightarrow>
               if paneId = [] then st
               else (let st1 = st\<lparr>sessionPaneMapRef := (sessionPaneMapRef st)(sessionId := None),
                                   paneSessionMapRef := (paneSessionMapRef st)(paneId := None)\<rparr>;
                         st2 = (case terminalRuntimesRef st1 paneId of
                                  None \<Rightarrow> st1
                                | Some runtime \<Rightarrow>
                                    st1\<lparr>surface := surface st1 @ [(paneId, ExitMarker exitCode)]\<rparr>);
                         st3 = updatePane st2 paneId
                                 (\<lambda>pane. (None, if exitCode = 0 then StatusSuccess else StatusError))
                     in if terminalRuntimesRef st3 paneId \<noteq> None
                        then snd (ensurePaneSession st3 paneId)
                        else st3))
      | _ \<Rightarrow> st)"

definition handleTerminalExit :: "app_state \<Rightarrow> session_id \<Rightarrow> int \<Rightarrow> app_state" where
  "handleTerminalExit st sessionId exitCode =
     (let st1 = st\<lparr>terminalOutputBySession := (terminalOutputBySession st)(sessionId := None)\<rparr>
      in foldl (\<lambda>s l. call_exit_listener s l sessionId exitCode) st1 (terminalExitListenersB st1))"

text \<open>
  \<open>createPaneRuntime\<close>: the terminal of the pane is made and registered, with the columns
  and rows \<open>terminal\<close> it starts with; then the pane is resized and a session is asked for.
  This is the only place that registers a runtime.
\<close>

definition createPaneRuntime ::
  "response backend option \<Rightarrow> (int \<times> int \<Rightarrow> int \<times> int) \<Rightarrow> app_state \<Rightarrow> pane_id \<Rightarrow> int \<times> int
     \<Rightarrow> app_state" where
  "createPaneRuntime rt fit st paneId terminal =
     (let st1 = st\<lparr>terminalRuntimesRef := (terminalRuntimesRef st)(paneId \<mapsto> terminal)\<rparr>;
          st2 = resizePaneTerminal rt fit st1 paneId
      in snd (ensurePaneSession st2 paneId))"

section \<open>Notions of the specification\<close>

text \<open>The most recent \<open>n\<close> elements of a sequence: the oldest are dropped first.\<close>

definition keep_last :: "nat \<Rightarrow> 'a list \<Rightarrow> 'a list" where
  "keep_last n xs = drop (length xs - n) xs"

text \<open>The backlog of a session; a session without an entry has the empty backlog.\<close>

definition the_backlog :: "(session_id \<rightharpoonup> jsstring) \<Rightarrow> session_id \<Rightarrow> jsstring" where
  "the_backlog m s = (case m s of None \<Rightarrow> [] | Some b \<Rightarrow> b)"

text \<open>All data that a sequence of output events carries for one session, in order.\<close>

definition data_for :: "session_id \<Rightarrow> (session_id \<times> jsstring) list \<Rightarrow> jsstring" where
  "data_for s evs = concat (map snd (filter (\<lambda>(i, d). i = s) evs))"

text \<open>A sequence of output events, handled one after the other, in either variant.\<close>

definition run_output :: "terminal_registry \<Rightarrow> (session_id \<times> jsstring) list \<Rightarrow> terminal_registry" where
  "run_output st evs = foldl (\<lambda>s (i, d). emitTerminalData s i d) st evs"

definition run_append ::
  "(session_id \<rightharpoonup> jsstring) \<Rightarrow> (session_id \<times> jsstring) list \<Rightarrow> (session_id \<rightharpoonup> jsstring)" where
  "run_append m evs = foldl (\<lambda>m (i, d). appendTerminalOutput m i d) m evs"

text \<open>
  A number of calls of \<open>ensurePaneSession\<close> for one pane that overlap: each runs to its
  first await or return before the next starts, and no promise settles in between.
\<close>

fun ensure_calls :: "nat \<Rightarrow> app_state \<Rightarrow> pane_id \<Rightarrow> ensure_outcome list \<times> app_state" where
  "ensure_calls 0 st paneId = ([], st)"
| "ensure_calls (Suc n) st paneId =
     (case ensurePaneSession st paneId of
        (r, st1) \<Rightarrow> (case ensure_calls n st1 paneId of (rs, st2) \<Rightarrow> (r # rs, st2)))"




text \<open>
  The fallback order as the specification words it: one list of (name, shape)
  combinations, tried in order, stopping at the first success.
\<close>

fun try_all ::
  "'r backend option \<Rightarrow> invocation list \<Rightarrow> thrown \<Rightarrow> invocation list \<times> (thrown + 'r)" where
  "try_all rt [] lastError = ([], Inl lastError)"
| "try_all rt ((command, args) # rest) lastError =
     (case invokeCommand rt command args of
        (sent, Inr r) \<Rightarrow> (sent, Inr r)
      | (sent, Inl error) \<Rightarrow>
          (case try_all rt rest error of (sent', res) \<Rightarrow> (sent @ sent', res)))"

text \<open>The columns and rows that a resize invocation carries.\<close>

definition request_dims :: "invocation \<Rightarrow> (int \<times> int) option" where
  "request_dims i =
     (case snd i of
        Wrapped (ResizeRequest sid cols rows) \<Rightarrow> Some (cols, rows)
      | Flat (ResizeRequest sid cols rows) \<Rightarrow> Some (cols, rows)
      | _ \<Rightarrow> None)"

text \<open>
  The two maps of the controller agree: a pane mapped to a session is the pane that the
  session is mapped to.
\<close>

definition maps_agree :: "app_state \<Rightarrow> bool" where
  "maps_agree st \<longleftrightarrow>
     (\<forall>p s. paneSessionMapRef st p = Some s \<longrightarrow> sessionPaneMapRef st s = Some p)"

section \<open>Example states\<close>

text \<open>
  The session ids \<open>"s1"\<close> and \<open>"s2"\<close> and the pane id \<open>"p1"\<close>, as code units. In the data
  of the examples \<open>0x61\<close>, \<open>0x62\<close>, \<open>0x63\<close> are the letters a, b, c.
\<close>

abbreviation sid1 :: session_id where
  "sid1 \<equiv> [0x73, 0x31]"

abbreviation sid2 :: session_id where
  "sid2 \<equiv> [0x73, 0x32]"

abbreviation pane1 :: pane_id where
  "pane1 \<equiv> [0x70, 0x31]"

text \<open>Registries of the shim and states of the renderer that the examples start from.\<close>

definition reg1 :: terminal_registry where
  "reg1 = empty_registry\<lparr>terminalDataListeners := [7],
            terminalSessionDataListeners := [sid1 \<mapsto> [1, 2]],
            terminalDataBySession := [sid2 \<mapsto> [0x61]]\<rparr>"

definition reg2 :: terminal_registry where
  "reg2 = run_output empty_registry [(sid1, [0x61]), (sid1, [0x62])]"

definition reg3 :: terminal_registry where
  "reg3 = empty_registry\<lparr>terminalExitListeners := [9], now := 1000\<rparr>"

definition alias_backend :: "response backend" where
  "alias_backend command args =
     (if command = ''terminal:create'' then Inr (Created sid1 42)
      else Inl (BackendError ''unknown command''))"

definition failing_backend :: "response backend" where
  "failing_backend command args =
     (case args of Flat req \<Rightarrow> Inl (BackendError ''bad arguments'')
      | _ \<Rightarrow> Inl (BackendError ''unknown command''))"

definition app1 :: app_state where
  "app1 = empty_app\<lparr>paneSessionMapRef := [pane1 \<mapsto> sid1],
                   sessionPaneMapRef := [sid1 \<mapsto> pane1],
                   terminalRuntimesRef := [pane1 \<mapsto> (80, 24)],
                   terminalOutputBySession := [sid1 \<mapsto> [0x61]],
                   terminalExitListenersB := [AppExitListener],
                   terminalOutputListeners := [AppOutputListener]\<rparr>"

definition accepting_backend :: "response backend" where
  "accepting_backend command args = Inr Done"

text \<open>A backend that rejects every command with null.\<close>

definition nullish_backend :: "response backend" where
  "nullish_backend command args = Inl Nullish"



definition app2 :: app_state where
  "app2 = empty_app\<lparr>terminalRuntimesRef := [pane1 \<mapsto> (80, 24)]\<rparr>"

definition run1 :: app_state where
  "run1 = createPaneRuntime (Some accepting_backend) (\<lambda>d. d)
            (snd (ensurePaneSession empty_app pane1)) pane1 (80, 24)"

definition run2 :: app_state where
  "run2 = snd (ensurePaneSession_resume run1 pane1 0)"


text \<open>
  The scenario of the specification: a backend that creates the session \<open>"s1"\<close> with
  process id 42, a pane with a runtime, and the states after the creation has settled,
  after the keystrokes \<open>ls\<close> and an output event, and after the exit event.
\<close>

definition scenario_backend :: "response backend" where
  "scenario_backend command args =
     (if command = ''terminal_create'' then Inr (Created sid1 42) else Inr Done)"

definition app3 :: app_state where
  "app3 = empty_app\<lparr>terminalRuntimesRef := [pane1 \<mapsto> (80, 24)],
                   terminalPanes := [pane1 \<mapsto> (None, StatusIdle)],
                   terminalExitListenersB := [AppExitListener],
                   terminalOutputListeners := [AppOutputListener]\<rparr>"

definition scenario1 :: app_state where
  "scenario1 = settleCreate (Some scenario_backend) (\<lambda>d. d)
                 (snd (ensurePaneSession app3 pane1)) (0, pane1, CreateRequest None 80 24) []"

definition scenario2 :: app_state where
  "scenario2 = appendTerminalOutput_notify
                 (pane_onData (Some scenario_backend) scenario1 pane1 [0x6C, 0x73, 0x0A])
                 sid1 [0x66, 0x0A]"

definition scenario3 :: app_state where
  "scenario3 = handleTerminalExit scenario2 sid1 0"

section \<open>Slices and capped buffers\<close>

lemma js_slice_nonneg: "0 \<le> k \<Longrightarrow> js_slice k xs = drop (nat k) xs"
  by (simp add: js_slice_def Let_def min_def)

lemma js_slice_neg: "0 < n \<Longrightarrow> js_slice (- int n) xs = drop (length xs - n) xs"
proof -
  assume n: "0 < n"
  have "nat (max (int (length xs) + - int n) 0) = length xs - n" by simp
  then show ?thesis using n by (simp add: js_slice_def Let_def)
qed

lemma keep_last_length: "length (keep_last n xs) \<le> n"
  by (simp add: keep_last_def)

lemma keep_last_append: "keep_last n (keep_last n xs @ ys) = keep_last n (xs @ ys)"
proof (cases "n \<le> length xs")
  case True
  then have "length xs - n + (n + length ys - n) = length xs + length ys - n" by simp
  with True show ?thesis by (simp add: keep_last_def add.commute)
next
  case False
  then show ?thesis by (simp add: keep_last_def)
qed

lemma buffer_append_keep_last:
  "buffer_append prev d = keep_last TERMINAL_BUFFER_LIMIT ((case prev of None \<Rightarrow> [] | Some b \<Rightarrow> b) @ d)"
proof -
  define nxt where "nxt = (case prev of None \<Rightarrow> [] | Some b \<Rightarrow> b) @ d"
  have "nat (int (length nxt) - int TERMINAL_BUFFER_LIMIT) = length nxt - TERMINAL_BUFFER_LIMIT"
    by simp
  then have "(if length nxt > TERMINAL_BUFFER_LIMIT
         then js_slice (int (length nxt) - int TERMINAL_BUFFER_LIMIT) nxt
         else nxt) = keep_last TERMINAL_BUFFER_LIMIT nxt"
    by (simp add: js_slice_nonneg keep_last_def)
  then show ?thesis
    unfolding buffer_append_def Let_def nxt_def .
qed

lemma emitTerminalData_listeners [simp]:
  "terminalSessionDataListeners (emitTerminalData st i d) = terminalSessionDataListeners st"
  by (simp add: emitTerminalData_def Let_def)

lemma run_output_listeners [simp]:
  "terminalSessionDataListeners (run_output st evs) = terminalSessionDataListeners st"
  by (induction evs rule: rev_induct) (simp_all add: run_output_def split: prod.splits)

lemma run_output_snoc: "run_output st (evs @ [(i, d)]) = emitTerminalData (run_output st evs) i d"
  by (simp add: run_output_def)

lemma emitTerminalData_backlog:
  "live_listeners (terminalSessionDataListeners st) s = [] \<Longrightarrow>
   the_backlog (terminalDataBySession (emitTerminalData st i d)) s =
     (if i = s then keep_last TERMINAL_BUFFER_LIMIT (the_backlog (terminalDataBySession st) s @ d)
      else the_backlog (terminalDataBySession st) s)"
  by (auto simp: emitTerminalData_def Let_def the_backlog_def buffer_append_keep_last)

lemma run_output_backlog:
  assumes "live_listeners (terminalSessionDataListeners st) s = []"
    and "the_backlog (terminalDataBySession st) s = []"
  shows "the_backlog (terminalDataBySession (run_output st evs)) s =
           keep_last TERMINAL_BUFFER_LIMIT (data_for s evs)"
proof (induction evs rule: rev_induct)
  case Nil
  show ?case using assms(2) by (simp add: run_output_def data_for_def keep_last_def)
next
  case (snoc e evs)
  obtain i d where e: "e = (i, d)" by (cases e)
  have l: "live_listeners (terminalSessionDataListeners (run_output st evs)) s = []"
    using assms(1) by simp
  show ?case
    unfolding e run_output_snoc emitTerminalData_backlog[OF l] snoc.IH
    by (simp add: data_for_def keep_last_append)
qed

lemma appendTerminalOutput_backlog:
  "the_backlog (appendTerminalOutput m i d) s =
     (if i = s then keep_last 8000 (the_backlog m s @ d) else the_backlog m s)"
  using js_slice_neg[of 8000 "the_backlog m s @ d"]
  by (simp add: appendTerminalOutput_def Let_def the_backlog_def keep_last_def)

lemma run_append_backlog:
  assumes "the_backlog m s = []"
  shows "the_backlog (run_append m evs) s = keep_last 8000 (data_for s evs)"
proof (induction evs rule: rev_induct)
  case Nil
  show ?case using assms by (simp add: run_append_def data_for_def keep_last_def)
next
  case (snoc e evs)
  obtain i d where e: "e = (i, d)" by (cases e)
  have "run_append m (evs @ [e]) = appendTerminalOutput (run_append m evs) i d"
    by (simp add: run_append_def e)
  then show ?case
    by (simp add: appendTerminalOutput_backlog snoc.IH e data_for_def keep_last_append)
qed

text \<open>
  Claim C2. A session \<open>s\<close> has no per-session output listener and its backlog is empty (or
  there is no entry for it yet). After any sequence of output events (for \<open>s\<close> and for
  other sessions) the backlog of \<open>s\<close> is the concatenation of the data received for \<open>s\<close>,
  cut to its most recent 1048576 code units in the API shim and to its most recent 8000
  code units in the renderer bridge; its length never exceeds that cap.
\<close>

theorem backlog_cap:
  assumes "live_listeners (terminalSessionDataListeners st) s = []"
    and "the_backlog (terminalDataBySession st) s = []"
    and "the_backlog m s = []"
  shows "the_backlog (terminalDataBySession (run_output st evs)) s
           = keep_last TERMINAL_BUFFER_LIMIT (data_for s evs)
       \<and> length (the_backlog (terminalDataBySession (run_output st evs)) s) \<le> TERMINAL_BUFFER_LIMIT
       \<and> the_backlog (run_append m evs) s = keep_last 8000 (data_for s evs)
       \<and> length (the_backlog (run_append m evs) s) \<le> 8000"
  using run_output_backlog[OF assms(1,2), of evs] run_append_backlog[of m s evs] assms(3)
  by (simp add: keep_last_length)

theorem backlog_cap_witness:
  "the_backlog (terminalDataBySession (run_output empty_registry
       [(sid1, replicate 1048576 0x61), (sid2, [0x7A]), (sid1, [0x62])])) sid1
     = replicate 1048575 0x61 @ [0x62]
   \<and> the_backlog (run_append Map.empty
       [(sid1, replicate 1048576 0x61), (sid2, [0x7A]), (sid1, [0x62])]) sid1
     = replicate 7999 0x61 @ [0x62]"
  using backlog_cap[of empty_registry "sid1" Map.empty
       "[(sid1, replicate 1048576 0x61), (sid2, [0x7A]), (sid1, [0x62])]"]
  by (simp add: empty_registry_def live_listeners_def the_backlog_def data_for_def keep_last_def
        TERMINAL_BUFFER_LIMIT_def)

section \<open>Live delivery and the flush of the backlog\<close>

lemma live_add: "l \<in> set (live_listeners (addPerSessionListener store s l) s)"
  by (simp add: live_listeners_def addPerSessionListener_def set_add_def split: option.splits)

lemma live_add_first:
  "live_listeners store s = [] \<Longrightarrow> live_listeners (addPerSessionListener store s l) s = [l]"
  by (cases "store s") (simp_all add: live_listeners_def addPerSessionListener_def set_add_def)

text \<open>
  Claim C7. When the per-session output listener set of \<open>s\<close> is not empty, an output event
  for \<open>s\<close> is delivered to the global listeners and to each listener of that set, and the
  backlog map is left as it was. When the set is empty (or absent), the event is delivered
  to the global listeners only and the data is appended to the backlog of \<open>s\<close>, capped.
  The renderer bridge has no per-session listener sets: its \<open>appendTerminalOutput\<close> always
  appends.
\<close>

theorem live_not_buffered:
  "(live_listeners (terminalSessionDataListeners st) s \<noteq> [] \<longrightarrow>
      terminalDataBySession (emitTerminalData st s d) = terminalDataBySession st
      \<and> delivered (emitTerminalData st s d)
          = delivered st @ map (\<lambda>fn. DataEvent fn s d) (terminalDataListeners st)
              @ map (\<lambda>fn. SessionData fn d) (live_listeners (terminalSessionDataListeners st) s))
   \<and> (live_listeners (terminalSessionDataListeners st) s = [] \<longrightarrow>
      terminalDataBySession (emitTerminalData st s d)
          = (terminalDataBySession st)
              (s \<mapsto> keep_last TERMINAL_BUFFER_LIMIT (the_backlog (terminalDataBySession st) s @ d))
      \<and> delivered (emitTerminalData st s d)
          = delivered st @ map (\<lambda>fn. DataEvent fn s d) (terminalDataListeners st))"
  by (simp add: emitTerminalData_def Let_def buffer_append_keep_last the_backlog_def)

theorem live_not_buffered_witness:
  "terminalDataBySession (emitTerminalData reg1 sid1 [0x62]) = [sid2 \<mapsto> [0x61]]
   \<and> delivered (emitTerminalData reg1 sid1 [0x62])
       = [DataEvent 7 sid1 [0x62], SessionData 1 [0x62], SessionData 2 [0x62]]
   \<and> terminalDataBySession (emitTerminalData reg1 sid2 [0x62])
       = [sid2 \<mapsto> [0x61, 0x62]]
   \<and> delivered (emitTerminalData reg1 sid2 [0x62]) = [DataEvent 7 sid2 [0x62]]"
  using live_not_buffered[of reg1 "sid1" "[0x62]"]
        live_not_buffered[of reg1 "sid2" "[0x62]"]
  by (simp add: reg1_def empty_registry_def live_listeners_def the_backlog_def keep_last_def
        TERMINAL_BUFFER_LIMIT_def)

text \<open>
  Claim C3. A session \<open>s\<close> has a non-empty backlog \<open>b\<close> and no per-session output listener.
  Attaching the listener \<open>l\<close> delivers \<open>b\<close> to \<open>l\<close> once, before \<open>onDataForSession\<close> returns,
  and deletes the backlog entry, so that a further listener attached afterwards receives
  nothing. An output event that arrives while \<open>l\<close> is attached goes to \<open>l\<close> and leaves the
  backlog of \<open>s\<close> empty.
\<close>

theorem flush_once:
  assumes "terminalDataBySession st s = Some b" and "b \<noteq> []"
    and "live_listeners (terminalSessionDataListeners st) s = []"
  shows "delivered (onDataForSession st s l) = delivered st @ [SessionData l b]
       \<and> terminalDataBySession (onDataForSession st s l) s = None
       \<and> live_listeners (terminalSessionDataListeners (onDataForSession st s l)) s = [l]
       \<and> delivered (onDataForSession (onDataForSession st s l) s l')
            = delivered (onDataForSession st s l)
       \<and> terminalDataBySession (emitTerminalData (onDataForSession st s l) s d) s = None
       \<and> delivered (emitTerminalData (onDataForSession st s l) s d)
            = delivered (onDataForSession st s l)
                @ map (\<lambda>fn. DataEvent fn s d) (terminalDataListeners st) @ [SessionData l d]"
proof -
  let ?st1 = "onDataForSession st s l"
  have 1: "delivered ?st1 = delivered st @ [SessionData l b]"
    using assms(1,2) by (simp add: onDataForSession_def Let_def)
  have 2: "terminalDataBySession ?st1 s = None"
    using assms(1,2) by (simp add: onDataForSession_def Let_def)
  have 3: "live_listeners (terminalSessionDataListeners ?st1) s = [l]"
    using assms(1,2) live_add_first[OF assms(3), of l] by (simp add: onDataForSession_def Let_def)
  have g: "terminalDataListeners ?st1 = terminalDataListeners st"
    using assms(1,2) by (simp add: onDataForSession_def Let_def)
  have 4: "delivered (onDataForSession ?st1 s l') = delivered ?st1"
    using 2 by (simp add: onDataForSession_def[of ?st1] Let_def)
  have 5: "terminalDataBySession (emitTerminalData ?st1 s d) s = None"
    using 2 3 by (simp add: emitTerminalData_def Let_def)
  have 6: "delivered (emitTerminalData ?st1 s d)
            = delivered ?st1 @ map (\<lambda>fn. DataEvent fn s d) (terminalDataListeners st) @ [SessionData l d]"
    using 3 g by (simp add: emitTerminalData_def Let_def)
  show ?thesis using 1 2 3 4 5 6 by simp
qed

lemma reg2_eq: "reg2 = empty_registry\<lparr>terminalDataBySession := [sid1 \<mapsto> [0x61, 0x62]]\<rparr>"
  by (simp add: reg2_def run_output_def emitTerminalData_def Let_def empty_registry_def
        live_listeners_def buffer_append_def TERMINAL_BUFFER_LIMIT_def)

theorem flush_once_witness:
  "delivered (onDataForSession reg2 sid1 5) = [SessionData 5 [0x61, 0x62]]
   \<and> terminalDataBySession (onDataForSession reg2 sid1 5) sid1 = None
   \<and> delivered (onDataForSession (onDataForSession reg2 sid1 5) sid1 6)
        = [SessionData 5 [0x61, 0x62]]
   \<and> delivered (emitTerminalData (onDataForSession reg2 sid1 5) sid1 [0x63])
        = [SessionData 5 [0x61, 0x62], SessionData 5 [0x63]]"
  using flush_once[of reg2 "sid1" "[0x61, 0x62]" 5 6 "[0x63]"]
  by (simp add: reg2_eq empty_registry_def live_listeners_def)

section \<open>The delayed exit record\<close>

lemma foldl_delete:
  "foldl (\<lambda>m (at, s). m(s := None)) m xs s' = (if s' \<in> snd ` set xs then None else m s')"
  by (induction xs arbitrary: m) (auto split: prod.splits)

lemma elapse_delivered [simp]: "delivered (elapse d st) = delivered st"
  by (simp add: elapse_def Let_def)

lemma elapse_record:
  "terminalExitBySession (elapse d st) s =
     (if s \<in> snd ` set (filter (\<lambda>(at, s). at \<le> now st + d) (timers st)) then None
      else terminalExitBySession st s)"
  by (simp add: elapse_def Let_def foldl_delete)

lemma elapse_record_None:
  "terminalExitBySession st s = None \<Longrightarrow> terminalExitBySession (elapse d st) s = None"
  by (simp add: elapse_record)

lemma onExitForSession_None:
  "terminalExitBySession st s = None \<Longrightarrow> delivered (onExitForSession st s l) = delivered st"
  by (simp add: onExitForSession_def Let_def)

lemma onExitForSession_Some:
  "terminalExitBySession st s = Some code \<Longrightarrow>
     delivered (onExitForSession st s l) = delivered st @ [SessionExit l code]
     \<and> terminalExitBySession (onExitForSession st s l) s = None"
  by (simp add: onExitForSession_def Let_def)

lemma emitTerminalExit_stored:
  assumes "live_listeners (terminalSessionExitListeners st) s = []"
  shows "terminalExitBySession (emitTerminalExit st s code) s = Some code"
    and "timers (emitTerminalExit st s code) = timers st @ [(now st + EXIT_RETENTION_MS, s)]"
    and "now (emitTerminalExit st s code) = now st"
  using assms by (simp_all add: emitTerminalExit_def Let_def)

text \<open>
  Claim C4. The exit event of a session \<open>s\<close> is processed while \<open>s\<close> has no per-session exit
  listener and no retention timer of an earlier exit of \<open>s\<close> is pending (a session exits
  once). Then the exit code is stored. A listener attached for \<open>s\<close> after less than 30000 ms
  receives the code, the record is deleted, and no listener attached later receives it
  again. After 30000 ms or more without an attach the record is gone, and a listener
  attached from then on receives nothing.
\<close>

theorem delayed_exit:
  assumes "live_listeners (terminalSessionExitListeners st) s = []"
    and "s \<notin> snd ` set (timers st)"
  shows "terminalExitBySession (emitTerminalExit st s code) s = Some code
       \<and> (d < EXIT_RETENTION_MS \<longrightarrow>
            delivered (onExitForSession (elapse d (emitTerminalExit st s code)) s l)
              = delivered (emitTerminalExit st s code) @ [SessionExit l code]
          \<and> terminalExitBySession (onExitForSession (elapse d (emitTerminalExit st s code)) s l) s = None
          \<and> delivered (onExitForSession
                (elapse d' (onExitForSession (elapse d (emitTerminalExit st s code)) s l)) s l')
              = delivered (onExitForSession (elapse d (emitTerminalExit st s code)) s l))
       \<and> (EXIT_RETENTION_MS \<le> d \<longrightarrow>
            terminalExitBySession (elapse d (emitTerminalExit st s code)) s = None
          \<and> delivered (onExitForSession (elapse d' (elapse d (emitTerminalExit st s code))) s l)
              = delivered (emitTerminalExit st s code))"
proof -
  let ?st1 = "emitTerminalExit st s code"
  note e = emitTerminalExit_stored[OF assms(1), of code]
  have stored: "terminalExitBySession ?st1 s = Some code" by (rule e(1))
  have early: "terminalExitBySession (elapse d ?st1) s = Some code" if "d < EXIT_RETENTION_MS"
  proof -
    have "s \<notin> snd ` set (filter (\<lambda>(at, s). at \<le> now ?st1 + d) (timers ?st1))"
      using assms(2) that by (auto simp: e(2,3))
    then show ?thesis by (simp add: elapse_record stored)
  qed
  have late: "terminalExitBySession (elapse d ?st1) s = None" if "EXIT_RETENTION_MS \<le> d"
  proof -
    have "(now st + EXIT_RETENTION_MS, s) \<in> set (filter (\<lambda>(at, s). at \<le> now ?st1 + d) (timers ?st1))"
      using that by (simp add: e(2,3))
    then have "s \<in> snd ` set (filter (\<lambda>(at, s). at \<le> now ?st1 + d) (timers ?st1))"
      by force
    then show ?thesis by (simp add: elapse_record)
  qed
  have A: "delivered (onExitForSession (elapse d ?st1) s l) = delivered ?st1 @ [SessionExit l code]
          \<and> terminalExitBySession (onExitForSession (elapse d ?st1) s l) s = None
          \<and> delivered (onExitForSession (elapse d' (onExitForSession (elapse d ?st1) s l)) s l')
              = delivered (onExitForSession (elapse d ?st1) s l)"
    if d: "d < EXIT_RETENTION_MS"
  proof -
    note c = onExitForSession_Some[OF early[OF d], of l]
    have "terminalExitBySession (elapse d' (onExitForSession (elapse d ?st1) s l)) s = None"
      using c by (simp add: elapse_record_None)
    then have "delivered (onExitForSession (elapse d' (onExitForSession (elapse d ?st1) s l)) s l')
                 = delivered (onExitForSession (elapse d ?st1) s l)"
      by (simp add: onExitForSession_None)
    with c show ?thesis by simp
  qed
  have B: "terminalExitBySession (elapse d ?st1) s = None
          \<and> delivered (onExitForSession (elapse d' (elapse d ?st1)) s l) = delivered ?st1"
    if d: "EXIT_RETENTION_MS \<le> d"
  proof -
    have "terminalExitBySession (elapse d' (elapse d ?st1)) s = None"
      using late[OF d] by (rule elapse_record_None)
    then show ?thesis using late[OF d] by (simp add: onExitForSession_None)
  qed
  show ?thesis using stored A B by blast
qed

theorem delayed_exit_witness:
  "terminalExitBySession (emitTerminalExit reg3 sid1 3) sid1 = Some 3
   \<and> delivered (onExitForSession (elapse 29999 (emitTerminalExit reg3 sid1 3)) sid1 4)
       = [ExitEvent 9 sid1 3, SessionExit 4 3]
   \<and> delivered (onExitForSession (elapse 500
         (onExitForSession (elapse 29999 (emitTerminalExit reg3 sid1 3)) sid1 4)) sid1 5)
       = [ExitEvent 9 sid1 3, SessionExit 4 3]
   \<and> terminalExitBySession (elapse 30000 (emitTerminalExit reg3 sid1 3)) sid1 = None
   \<and> delivered (onExitForSession (elapse 0 (elapse 30000 (emitTerminalExit reg3 sid1 3))) sid1 4)
       = [ExitEvent 9 sid1 3]"
proof -
  have h: "live_listeners (terminalSessionExitListeners reg3) sid1 = []"
     "sid1 \<notin> snd ` set (timers reg3)"
    by (simp_all add: reg3_def empty_registry_def live_listeners_def)
  have d0: "delivered (emitTerminalExit reg3 sid1 3) = [ExitEvent 9 sid1 3]"
    by (simp add: emitTerminalExit_def Let_def reg3_def empty_registry_def live_listeners_def)
  show ?thesis
    using delayed_exit[OF h, of 3 29999 4 500 5] delayed_exit[OF h, of 3 30000 4 0 4]
    by (simp add: d0 EXIT_RETENTION_MS_def)
qed

section \<open>Fallbacks over command names and argument shapes\<close>

lemma try_variants_all: "try_variants rt c vs e = try_all rt (map (Pair c) vs) e"
  by (induction vs arbitrary: e) (auto split: prod.splits sum.splits)

lemma try_all_append:
  "try_all rt (xs @ ys) e =
     (case try_all rt xs e of
        (sent, Inr r) \<Rightarrow> (sent, Inr r)
      | (sent, Inl e') \<Rightarrow> (case try_all rt ys e' of (sent', res) \<Rightarrow> (sent @ sent', res)))"
proof (induction xs arbitrary: e)
  case Nil
  show ?case by (simp split: prod.splits)
next
  case (Cons x xs)
  obtain c a where x: "x = (c, a)" by (cases x)
  show ?case
    by (simp add: x Cons.IH split: prod.splits sum.splits)
qed

lemma try_commands_all: "try_commands rt cs vs e = try_all rt (List.product cs vs) e"
proof (induction cs arbitrary: e)
  case Nil
  show ?case by simp
next
  case (Cons c cs)
  show ?case
    by (simp add: try_variants_all try_all_append Cons.IH split: prod.splits sum.splits)
qed

lemma try_all_fail:
  assumes "\<forall>(c, a) \<in> set xs. isl (invoke c a)"
  shows "try_all (Some invoke) xs e =
           (xs, Inl (if xs = [] then e else projl (invoke (fst (last xs)) (snd (last xs)))))"
  using assms
proof (induction xs arbitrary: e)
  case Nil
  show ?case by simp
next
  case (Cons x xs)
  obtain c a where x: "x = (c, a)" by (cases x)
  from Cons.prems x obtain err where err: "invoke c a = Inl err"
    by (cases "invoke c a") auto
  have "\<forall>(c, a) \<in> set xs. isl (invoke c a)" using Cons.prems by simp
  from Cons.IH[OF this, of err] show ?case
    by (simp add: x err invokeCommand_def)
qed

lemma try_all_success:
  assumes "\<forall>(c, a) \<in> set pre. isl (invoke c a)" and "invoke c a = Inr r"
  shows "try_all (Some invoke) (pre @ (c, a) # post) e = (pre @ [(c, a)], Inr r)"
  by (simp add: try_all_append try_all_fail[OF assms(1)] assms(2) invokeCommand_def)

text \<open>
  Claim C6 says that the last-seen error is thrown when every combination fails. It does
  not hold when the last rejection carries null or undefined: for a backend that rejects
  every kill command with null, all four combinations are sent and what is thrown is the
  generic error of the action, made by \<open>lastError ?? new Error(...)\<close>, not the last-seen
  value.
\<close>

theorem fallback_nullish_counterexample:
  "nullish_backend ''terminal:kill'' (Flat (KillRequest sid1 None)) = Inl Nullish
   \<and> invokeWithFallbacks (Some nullish_backend) ''terminal.kill'' [''terminal_kill'', ''terminal:kill'']
        [Wrapped (KillRequest sid1 None), Flat (KillRequest sid1 None)]
      = ([(''terminal_kill'', Wrapped (KillRequest sid1 None)),
          (''terminal_kill'', Flat (KillRequest sid1 None)),
          (''terminal:kill'', Wrapped (KillRequest sid1 None)),
          (''terminal:kill'', Flat (KillRequest sid1 None))],
         Inl (ActionFailed ''terminal.kill failed'') :: thrown + response)"
  by (simp add: invokeWithFallbacks_def invokeCommand_def nullish_backend_def)

text \<open>
  Claim C6, amended. The combinations of command name and argument shape are tried in the
  order of \<open>List.product commands argsVariants\<close>: every name in order, and for each name
  every shape in order, so the canonical name with the canonical shape comes first. If a
  combination succeeds after all earlier ones failed, exactly the combinations up to it are
  sent and its result is returned; this covers a failing canonical name followed by a
  succeeding alias. If every combination fails, all of them are sent and the error of the
  last one is thrown, unless that error is null or undefined: then the generic error
  \<open>"<action> failed"\<close> is thrown, as it is when there is no combination at all.
\<close>

theorem fallback_order:
  "(List.product commands argsVariants = pre @ (c, a) # post
      \<and> (\<forall>(c', a') \<in> set pre. isl (invoke c' a')) \<and> invoke c a = Inr r
      \<longrightarrow> invokeWithFallbacks (Some invoke) action commands argsVariants = (pre @ [(c, a)], Inr r))
   \<and> (List.product commands argsVariants = pre @ [(c, a)]
      \<and> (\<forall>(c', a') \<in> set pre. isl (invoke c' a')) \<and> invoke c a = Inl e
      \<longrightarrow> invokeWithFallbacks (Some invoke) action commands argsVariants
            = (List.product commands argsVariants,
               Inl (if e = Nullish then ActionFailed (action @ '' failed'') else e)))
   \<and> (List.product commands argsVariants = []
      \<longrightarrow> invokeWithFallbacks (Some invoke) action commands argsVariants
            = ([], Inl (ActionFailed (action @ '' failed''))))"
proof (intro conjI impI)
  assume h: "List.product commands argsVariants = pre @ (c, a) # post
      \<and> (\<forall>(c', a') \<in> set pre. isl (invoke c' a')) \<and> invoke c a = Inr r"
  then show "invokeWithFallbacks (Some invoke) action commands argsVariants = (pre @ [(c, a)], Inr r)"
    by (simp add: invokeWithFallbacks_def try_commands_all try_all_success)
next
  assume h: "List.product commands argsVariants = pre @ [(c, a)]
      \<and> (\<forall>(c', a') \<in> set pre. isl (invoke c' a')) \<and> invoke c a = Inl e"
  then have "\<forall>(c', a') \<in> set (pre @ [(c, a)]). isl (invoke c' a')" by auto
  from try_all_fail[OF this, of Nullish] h
  show "invokeWithFallbacks (Some invoke) action commands argsVariants
            = (List.product commands argsVariants,
               Inl (if e = Nullish then ActionFailed (action @ '' failed'') else e))"
    by (simp add: invokeWithFallbacks_def try_commands_all)
next
  assume "List.product commands argsVariants = []"
  then show "invokeWithFallbacks (Some invoke) action commands argsVariants
            = ([], Inl (ActionFailed (action @ '' failed'')))"
    by (simp add: invokeWithFallbacks_def try_commands_all)
qed

lemma fallback_generic_error:
  assumes "\<forall>(c, a) \<in> set (List.product commands argsVariants). isl (invoke c a)"
    and "List.product commands argsVariants = []
         \<or> invoke (fst (last (List.product commands argsVariants)))
                   (snd (last (List.product commands argsVariants))) = Inl Nullish"
  shows "invokeWithFallbacks (Some invoke) action commands argsVariants
           = (List.product commands argsVariants, Inl (ActionFailed (action @ '' failed'')))"
  using try_all_fail[OF assms(1), of Nullish] assms(2)
  by (auto simp: invokeWithFallbacks_def try_commands_all)

lemma try_all_sent_subset: "try_all rt xs e = (sent, res) \<Longrightarrow> set sent \<subseteq> set xs"
proof (induction xs arbitrary: e sent res)
  case Nil
  then show ?case by simp
next
  case (Cons x xs)
  obtain c a where x: "x = (c, a)" by (cases x)
  obtain s1 r1 where i: "invokeCommand rt c a = (s1, r1)" by (cases "invokeCommand rt c a")
  have s1: "set s1 \<subseteq> {(c, a)}"
    using i by (auto simp: invokeCommand_def split: option.splits)
  show ?case
  proof (cases r1)
    case (Inr r)
    with Cons.prems x i s1 show ?thesis by auto
  next
    case (Inl e')
    obtain s2 r2 where t: "try_all rt xs e' = (s2, r2)" by (cases "try_all rt xs e'")
    from Cons.IH[OF t] have "set s2 \<subseteq> set xs" .
    with Cons.prems x i s1 Inl t show ?thesis by auto
  qed
qed

lemma fallback_sent_subset:
  "invokeWithFallbacks rt action commands argsVariants = (sent, res) \<Longrightarrow>
     set sent \<subseteq> set (List.product commands argsVariants)"
proof -
  assume h: "invokeWithFallbacks rt action commands argsVariants = (sent, res)"
  obtain s1 r1 where t: "try_all rt (List.product commands argsVariants) Nullish = (s1, r1)"
    by (cases "try_all rt (List.product commands argsVariants) Nullish")
  with h have "sent = s1"
    by (auto simp: invokeWithFallbacks_def try_commands_all split: sum.splits)
  with try_all_sent_subset[OF t] show ?thesis by simp
qed

theorem fallback_order_witness:
  "invokeWithFallbacks (Some alias_backend) ''terminal.create'' [''terminal_create'', ''terminal:create'']
       [Wrapped (CreateRequest None 120 34), Flat (CreateRequest None 120 34)]
     = ([(''terminal_create'', Wrapped (CreateRequest None 120 34)),
         (''terminal_create'', Flat (CreateRequest None 120 34)),
         (''terminal:create'', Wrapped (CreateRequest None 120 34))], Inr (Created sid1 42))
   \<and> snd (invokeWithFallbacks (Some failing_backend) ''terminal.create'' [''terminal_create'', ''terminal:create'']
       [Wrapped (CreateRequest None 120 34), Flat (CreateRequest None 120 34)])
     = Inl (BackendError ''bad arguments'')
   \<and> snd (invokeWithFallbacks (Some nullish_backend) ''terminal.create'' [''terminal_create'', ''terminal:create'']
       [Wrapped (CreateRequest None 120 34), Flat (CreateRequest None 120 34)])
     = Inl (ActionFailed ''terminal.create failed'')
   \<and> invokeWithFallbacks (Some failing_backend) ''terminal.list'' [] [NoArgs]
     = ([], Inl (ActionFailed ''terminal.list failed''))"
  using fallback_order[of "[''terminal_create'', ''terminal:create'']"
          "[Wrapped (CreateRequest None 120 34), Flat (CreateRequest None 120 34)]"
          "[(''terminal_create'', Wrapped (CreateRequest None 120 34)),
            (''terminal_create'', Flat (CreateRequest None 120 34))]"
          "''terminal:create''" "Wrapped (CreateRequest None 120 34)"
          "[(''terminal:create'', Flat (CreateRequest None 120 34))]"
          alias_backend "Created sid1 42" "''terminal.create''"]
        fallback_order[of "[''terminal_create'', ''terminal:create'']"
          "[Wrapped (CreateRequest None 120 34), Flat (CreateRequest None 120 34)]"
          "[(''terminal_create'', Wrapped (CreateRequest None 120 34)),
            (''terminal_create'', Flat (CreateRequest None 120 34)),
            (''terminal:create'', Wrapped (CreateRequest None 120 34))]"
          "''terminal:create''" "Flat (CreateRequest None 120 34)" "[]"
          failing_backend "Created [] 0" "''terminal.create''" "BackendError ''bad arguments''"]
        fallback_order[of "[''terminal_create'', ''terminal:create'']"
          "[Wrapped (CreateRequest None 120 34), Flat (CreateRequest None 120 34)]"
          "[(''terminal_create'', Wrapped (CreateRequest None 120 34)),
            (''terminal_create'', Flat (CreateRequest None 120 34)),
            (''terminal:create'', Wrapped (CreateRequest None 120 34))]"
          "''terminal:create''" "Flat (CreateRequest None 120 34)" "[]"
          nullish_backend "Created [] 0" "''terminal.create''" Nullish]
        fallback_order[of "[]" "[NoArgs]" "[]" "''x''" NoArgs "[]" failing_backend "Created [] 0"
          "''terminal.list''" Nullish]
  by (simp add: alias_backend_def failing_backend_def nullish_backend_def)

section \<open>Operations on a missing session id\<close>

text \<open>
  Claim C10. Called with a session id that is not a string of positive length, \<open>write\<close>,
  \<open>resize\<close> and \<open>destroy\<close> of the API shim send nothing to the backend and leave the registry
  as it is. Called with the empty string, \<open>writeTerminal\<close>, \<open>resizeTerminal\<close> and
  \<open>killTerminal\<close> of the renderer bridge leave the state as it is (so nothing is sent) and
  their promise is fulfilled, not rejected.
\<close>

theorem empty_id_noop:
  "(\<not> isNonEmptyString ident \<longrightarrow>
       terminal_write ident data = []
     \<and> terminal_resize ident cols rows = []
     \<and> terminal_destroy st ident = ([], st))
   \<and> writeTerminal rt ast [] data = (ast, Inr ())
   \<and> resizeTerminal rt ast [] cols rows = (ast, Inr ())
   \<and> killTerminal rt ast [] signal = (ast, Inr ())"
  by (simp add: terminal_write_def terminal_resize_def terminal_destroy_def
        writeTerminal_def resizeTerminal_def killTerminal_def)

theorem empty_id_noop_witness:
  "terminal_write (JString []) [0x6C, 0x73] = []
   \<and> terminal_resize (JNumber 7) 80 24 = []
   \<and> terminal_destroy reg1 JUndefined = ([], reg1)
   \<and> terminal_destroy reg1 (JString []) = ([], reg1)
   \<and> killTerminal (Some alias_backend) empty_app [] None = (empty_app, Inr ())"
  using empty_id_noop[of "JString []" "[0x6C, 0x73]" 80 24 reg1 "Some alias_backend" empty_app None]
        empty_id_noop[of "JNumber 7" "[0x6C, 0x73]" 80 24 reg1 "Some alias_backend" empty_app None]
        empty_id_noop[of JUndefined "[0x6C, 0x73]" 80 24 reg1 "Some alias_backend" empty_app None]
  by (simp add: isNonEmptyString_def)

section \<open>The floor of columns and rows\<close>

text \<open>
  Claim C9 does not hold of \<open>terminal.resize\<close> of the API shim: asked for 1 column and 0
  rows, it sends 1 column and 1 row.
\<close>

theorem resize_below_two_counterexample:
  "terminal_resize (JString sid1) 1 0
     = [(''terminal_resize'', Wrapped (ResizeRequest sid1 1 1))]
   \<and> request_dims (''terminal_resize'', Wrapped (ResizeRequest sid1 1 1)) = Some (1, 1)"
  by (simp add: terminal_resize_def isNonEmptyString_def request_dims_def)

lemma resizeTerminal_sent:
  "\<exists>sent. invocations (fst (resizeTerminal rt st sid cols rows)) = invocations st @ sent
      \<and> (\<forall>i \<in> set sent. request_dims i = Some (cols, rows))"
proof (cases "sid = [] \<or> rt = None")
  case True
  then show ?thesis by (auto simp: resizeTerminal_def)
next
  case False
  obtain sent res where
    i: "invokeWithFallbacks rt ''terminal.resize'' [''terminal_resize'', ''terminal:resize'']
          [Wrapped (ResizeRequest sid cols rows), Flat (ResizeRequest sid cols rows)] = (sent, res)"
    by (cases "invokeWithFallbacks rt ''terminal.resize'' [''terminal_resize'', ''terminal:resize'']
          [Wrapped (ResizeRequest sid cols rows), Flat (ResizeRequest sid cols rows)]")
  from fallback_sent_subset[OF i] have "\<forall>i \<in> set sent. request_dims i = Some (cols, rows)"
    by (auto simp: request_dims_def)
  moreover have "invocations (fst (resizeTerminal rt st sid cols rows)) = invocations st @ sent"
    using False i by (cases res) (auto simp: resizeTerminal_def Let_def)
  ultimately show ?thesis by blast
qed

text \<open>
  Claim C9, amended. Every resize request that \<open>resizePaneTerminal\<close> sends to the backend
  for the session bound to a pane carries at least 2 columns and at least 2 rows.
  \<open>terminal.resize\<close> of the API shim has no such floor: it sends the columns and rows it is
  given, with 1 in place of a value that is 0.
\<close>

theorem resize_floor:
  "(\<exists>sent. invocations (resizePaneTerminal rt fit st paneId) = invocations st @ sent
       \<and> (\<forall>i \<in> set sent. \<exists>cols rows. request_dims i = Some (cols, rows) \<and> 2 \<le> cols \<and> 2 \<le> rows))
   \<and> (sid \<noteq> [] \<longrightarrow> terminal_resize (JString sid) cols rows
         = [(''terminal_resize'',
             Wrapped (ResizeRequest sid (if cols = 0 then 1 else cols) (if rows = 0 then 1 else rows)))])"
proof
  show "\<exists>sent. invocations (resizePaneTerminal rt fit st paneId) = invocations st @ sent
       \<and> (\<forall>i \<in> set sent. \<exists>cols rows. request_dims i = Some (cols, rows) \<and> 2 \<le> cols \<and> 2 \<le> rows)"
  proof (cases "terminalRuntimesRef st paneId")
    case None
    then show ?thesis by (simp add: resizePaneTerminal_def)
  next
    case (Some runtime)
    let ?st1 = "st\<lparr>terminalRuntimesRef := (terminalRuntimesRef st)(paneId \<mapsto> fit runtime)\<rparr>"
    show ?thesis
    proof (cases "paneSessionMapRef st paneId")
      case None
      with Some show ?thesis by (simp add: resizePaneTerminal_def Let_def)
    next
      case (Some sessionId)
      show ?thesis
      proof (cases "sessionId = []")
        case True
        with Some \<open>terminalRuntimesRef st paneId = Some runtime\<close> show ?thesis
          by (simp add: resizePaneTerminal_def Let_def)
      next
        case False
        have r: "resizePaneTerminal rt fit st paneId
                  = fst (resizeTerminal rt ?st1 sessionId (max 2 (fst (fit runtime))) (max 2 (snd (fit runtime))))"
          using False Some \<open>terminalRuntimesRef st paneId = Some runtime\<close>
          by (simp add: resizePaneTerminal_def Let_def)
        from resizeTerminal_sent[of rt ?st1 sessionId "max 2 (fst (fit runtime))" "max 2 (snd (fit runtime))"]
        obtain sent where
          "invocations (resizePaneTerminal rt fit st paneId) = invocations st @ sent"
          "\<forall>i \<in> set sent. request_dims i = Some (max 2 (fst (fit runtime)), max 2 (snd (fit runtime)))"
          unfolding r by auto
        then show ?thesis by (intro exI[of _ sent]) auto
      qed
    qed
  qed
next
  show "sid \<noteq> [] \<longrightarrow> terminal_resize (JString sid) cols rows
         = [(''terminal_resize'',
             Wrapped (ResizeRequest sid (if cols = 0 then 1 else cols) (if rows = 0 then 1 else rows)))]"
    by (simp add: terminal_resize_def isNonEmptyString_def)
qed

lemma app1_resize:
  "invocations (resizePaneTerminal (Some accepting_backend) (\<lambda>d. (1, 0)) app1 pane1)
     = [(''terminal_resize'', Wrapped (ResizeRequest sid1 2 2))]"
  by (simp add: resizePaneTerminal_def app1_def empty_app_def Let_def resizeTerminal_def
        invokeWithFallbacks_def invokeCommand_def accepting_backend_def)

lemma app1_invocations: "invocations app1 = []"
  by (simp add: app1_def empty_app_def)

theorem resize_floor_witness:
  "invocations (resizePaneTerminal (Some accepting_backend) (\<lambda>d. (1, 0)) app1 pane1)
     = [(''terminal_resize'', Wrapped (ResizeRequest sid1 2 2))]
   \<and> request_dims (''terminal_resize'', Wrapped (ResizeRequest sid1 2 2)) = Some (2, 2)
   \<and> terminal_resize (JString sid1) 0 24
       = [(''terminal_resize'', Wrapped (ResizeRequest sid1 1 24))]"
  using resize_floor[of "Some accepting_backend" "\<lambda>d. (1, 0)" app1 "pane1" "sid1" 0 24]
  by (auto simp: app1_invocations app1_resize request_dims_def)

section \<open>What a kill forgets\<close>

lemma updatePane_maps [simp]:
  "paneSessionMapRef (updatePane st p f) = paneSessionMapRef st"
  "sessionPaneMapRef (updatePane st p f) = sessionPaneMapRef st"
  "creatingSessionRef (updatePane st p f) = creatingSessionRef st"
  "terminalRuntimesRef (updatePane st p f) = terminalRuntimesRef st"
  "terminalOutputBySession (updatePane st p f) = terminalOutputBySession st"
  "invocations (updatePane st p f) = invocations st"
  "createCalls (updatePane st p f) = createCalls st"
  "nextPromise (updatePane st p f) = nextPromise st"
  "terminalCwd (updatePane st p f) = terminalCwd st"
  by (simp_all add: updatePane_def split: option.splits)

lemma killTerminal_maps [simp]:
  "paneSessionMapRef (fst (killTerminal rt st sid signal)) = paneSessionMapRef st"
  "sessionPaneMapRef (fst (killTerminal rt st sid signal)) = sessionPaneMapRef st"
  "creatingSessionRef (fst (killTerminal rt st sid signal)) = creatingSessionRef st"
  "terminalRuntimesRef (fst (killTerminal rt st sid signal)) = terminalRuntimesRef st"
  by (simp_all add: killTerminal_def Let_def split: prod.splits sum.splits)


lemma disposePaneRuntime_maps:
  "paneSessionMapRef (disposePaneRuntime rt st p k r) = (paneSessionMapRef st)(p := None)"
  "creatingSessionRef (disposePaneRuntime rt st p k r) = (creatingSessionRef st)(p := None)"
  "terminalRuntimesRef (disposePaneRuntime rt st p k r) = (terminalRuntimesRef st)(p := None)"
  "sessionPaneMapRef (disposePaneRuntime rt st p k r) =
     (case paneSessionMapRef st p of
        None \<Rightarrow> sessionPaneMapRef st
      | Some sid \<Rightarrow> if sid = [] then sessionPaneMapRef st else (sessionPaneMapRef st)(sid := None))"
  by (simp_all add: disposePaneRuntime_def Let_def split: option.splits)




section \<open>Overlapping requests for a session\<close>

lemma ensure_in_flight:
  "\<not> truthy (paneSessionMapRef st p) \<Longrightarrow> creatingSessionRef st p = Some q \<Longrightarrow>
     ensurePaneSession st p = (Pending q, st)"
  by (simp add: ensurePaneSession_def)

lemma ensure_calls_in_flight:
  "\<not> truthy (paneSessionMapRef st p) \<Longrightarrow> creatingSessionRef st p = Some q \<Longrightarrow>
     ensure_calls n st p = (replicate n (Pending q), st)"
  by (induction n) (simp_all add: ensure_in_flight)

lemma ensure_first:
  assumes "\<not> truthy (paneSessionMapRef st p)" and "creatingSessionRef st p = None"
    and "terminalRuntimesRef st p = Some terminal"
  shows "ensurePaneSession st p = issueCreate st p terminal"
  using assms by (simp add: ensurePaneSession_def)

lemma issueCreate_state:
  "fst (issueCreate st p terminal) = Pending (nextPromise st)"
  "paneSessionMapRef (snd (issueCreate st p terminal)) = paneSessionMapRef st"
  "sessionPaneMapRef (snd (issueCreate st p terminal)) = sessionPaneMapRef st"
  "terminalOutputBySession (snd (issueCreate st p terminal)) = terminalOutputBySession st"
  "creatingSessionRef (snd (issueCreate st p terminal)) p = Some (nextPromise st)"
  "createCalls (snd (issueCreate st p terminal)) = createCalls st
     @ [(nextPromise st, p, CreateRequest (terminalCwd st) (max 2 (fst terminal)) (max 2 (snd terminal)))]"
  by (simp_all add: issueCreate_def Let_def)

text \<open>
  While the pane has its entry in \<open>creatingSessionRef\<close> and no session, any number of
  overlapping calls return the promise of that entry and change nothing; and a first call
  for a pane that has a runtime makes exactly one call of \<open>createTerminal\<close>.
\<close>

lemma ensure_dedup_in_flight:
  "(\<not> truthy (paneSessionMapRef st p) \<and> creatingSessionRef st p = Some q \<longrightarrow>
      ensure_calls n st p = (replicate n (Pending q), st))
   \<and> (\<not> truthy (paneSessionMapRef st p) \<and> creatingSessionRef st p = None
        \<and> terminalRuntimesRef st p = Some terminal \<longrightarrow>
      fst (ensure_calls (Suc n) st p) = replicate (Suc n) (Pending (nextPromise st))
      \<and> createCalls (snd (ensure_calls (Suc n) st p)) = createCalls st
           @ [(nextPromise st, p, CreateRequest (terminalCwd st) (max 2 (fst terminal)) (max 2 (snd terminal)))])"
proof (intro conjI impI)
  assume "\<not> truthy (paneSessionMapRef st p) \<and> creatingSessionRef st p = Some q"
  then show "ensure_calls n st p = (replicate n (Pending q), st)"
    by (simp add: ensure_calls_in_flight)
next
  assume h: "\<not> truthy (paneSessionMapRef st p) \<and> creatingSessionRef st p = None
        \<and> terminalRuntimesRef st p = Some terminal"
  let ?st1 = "snd (issueCreate st p terminal)"
  have e: "ensurePaneSession st p = (Pending (nextPromise st), ?st1)"
    using h ensure_first[of st p terminal] issueCreate_state(1)[of st p terminal]
    by (simp add: prod_eq_iff)
  have "\<not> truthy (paneSessionMapRef ?st1 p)" "creatingSessionRef ?st1 p = Some (nextPromise st)"
    using h by (simp_all add: issueCreate_state)
  then have r: "ensure_calls n ?st1 p = (replicate n (Pending (nextPromise st)), ?st1)"
    by (rule ensure_calls_in_flight)
  show "fst (ensure_calls (Suc n) st p) = replicate (Suc n) (Pending (nextPromise st))"
    by (simp add: e r)
  show "createCalls (snd (ensure_calls (Suc n) st p)) = createCalls st
           @ [(nextPromise st, p, CreateRequest (terminalCwd st) (max 2 (fst terminal)) (max 2 (snd terminal)))]"
    by (simp add: e r issueCreate_state)
qed

lemma ensure_dedup_example:
  "fst (ensure_calls 3 app2 pane1) = [Pending 0, Pending 0, Pending 0]
   \<and> createCalls (snd (ensure_calls 3 app2 pane1)) = [(0, pane1, CreateRequest None 80 24)]
   \<and> ensure_calls 2 (snd (ensurePaneSession app2 pane1)) pane1
        = ([Pending 0, Pending 0], snd (ensurePaneSession app2 pane1))"
proof -
  have s: "creatingSessionRef (snd (ensurePaneSession app2 pane1)) pane1 = Some 0"
    "\<not> truthy (paneSessionMapRef (snd (ensurePaneSession app2 pane1)) pane1)"
    by (simp_all add: ensurePaneSession_def issueCreate_def Let_def app2_def empty_app_def truthy_def)
  have t: "\<not> truthy (paneSessionMapRef app2 pane1)" "creatingSessionRef app2 pane1 = None"
    "terminalRuntimesRef app2 pane1 = Some (80, 24)" "nextPromise app2 = 0" "createCalls app2 = []"
    "terminalCwd app2 = None"
    by (simp_all add: app2_def empty_app_def truthy_def)
  have three: "(3::nat) = Suc 2" "(2::nat) = Suc (Suc 0)" by simp_all
  show ?thesis
    using ensure_dedup_in_flight[of app2 "pane1" 0 2 "(80, 24)"]
          ensure_dedup_in_flight[of "snd (ensurePaneSession app2 pane1)" "pane1" 0 2 "(80, 24)"]
    by (simp add: s t three del: ensure_calls.simps)
qed

lemma run1_eq:
  "run1 = empty_app\<lparr>terminalRuntimesRef := [pane1 \<mapsto> (80, 24)],
             createCalls := [(0, pane1, CreateRequest None 80 24)],
             creatingSessionRef := [pane1 \<mapsto> 0],
             nextPromise := 1\<rparr>"
  by (simp add: run1_def createPaneRuntime_def ensurePaneSession_def resizePaneTerminal_def
        issueCreate_def Let_def empty_app_def truthy_def)

lemma run2_eq:
  "run2 = empty_app\<lparr>terminalRuntimesRef := [pane1 \<mapsto> (80, 24)],
             createCalls := [(0, pane1, CreateRequest None 80 24),
                             (1, pane1, CreateRequest None 80 24)],
             creatingSessionRef := [pane1 \<mapsto> 1],
             nextPromise := 2\<rparr>"
  by (simp add: run2_def run1_eq ensurePaneSession_resume_def issueCreate_def Let_def empty_app_def)

text \<open>
  Claim C1 says that calls of \<open>ensurePaneSession\<close> for a pane that overlap an unresolved
  creation all obtain the same session id and that one call of \<open>createTerminal\<close> is made
  for the pane. The path that waits for the runtime breaks this. A first call finds no
  runtime and waits. \<open>createPaneRuntime\<close> then registers the runtime and calls
  \<open>ensurePaneSession\<close>, which makes the call of \<open>createTerminal\<close> with promise 0; a call
  that comes now obtains promise 0. The first call wakes up, finds the runtime and, without
  looking at \<open>creatingSessionRef\<close> again, makes a second call of \<open>createTerminal\<close> with
  promise 1, which replaces promise 0 in \<open>creatingSessionRef\<close>; a call that comes now obtains
  promise 1. Both creations are unresolved and no session is bound to the pane.
\<close>

theorem ensure_wait_duplicate:
  "ensurePaneSession empty_app pane1 = (Waiting 0, empty_app)
   \<and> ensurePaneSession run1 pane1 = (Pending 0, run1)
   \<and> ensurePaneSession_resume run1 pane1 0 = (Pending 1, run2)
   \<and> ensurePaneSession run2 pane1 = (Pending 1, run2)
   \<and> createCalls run2 = [(0, pane1, CreateRequest None 80 24),
                          (1, pane1, CreateRequest None 80 24)]
   \<and> settled run2 = Map.empty
   \<and> paneSessionMapRef run2 pane1 = None"
proof -
  have a: "ensurePaneSession empty_app pane1 = (Waiting 0, empty_app)"
    by (simp add: ensurePaneSession_def empty_app_def truthy_def)
  have b: "ensurePaneSession run1 pane1 = (Pending 0, run1)"
    by (rule ensure_in_flight) (simp_all add: run1_eq empty_app_def truthy_def)
  have c: "ensurePaneSession_resume run1 pane1 0 = (Pending 1, run2)"
    unfolding run2_eq
    by (simp add: run1_eq ensurePaneSession_resume_def issueCreate_def Let_def empty_app_def)
  have d: "ensurePaneSession run2 pane1 = (Pending 1, run2)"
    by (rule ensure_in_flight) (simp_all add: run2_eq empty_app_def truthy_def)
  show ?thesis using a b c d by (simp add: run2_eq empty_app_def)
qed

section \<open>Teardown on exit\<close>

lemma ensurePaneSession_maps [simp]:
  "paneSessionMapRef (snd (ensurePaneSession st p)) = paneSessionMapRef st"
  "sessionPaneMapRef (snd (ensurePaneSession st p)) = sessionPaneMapRef st"
  "terminalOutputBySession (snd (ensurePaneSession st p)) = terminalOutputBySession st"
  by (simp_all add: ensurePaneSession_def issueCreate_def Let_def split: option.splits)

lemma call_exit_listener_backlog [simp]:
  "terminalOutputBySession (call_exit_listener st l s code) = terminalOutputBySession st"
  by (simp add: call_exit_listener_def Let_def split: bridge_listener.splits option.splits)

lemma foldl_exit_backlog [simp]:
  "terminalOutputBySession (foldl (\<lambda>st l. call_exit_listener st l s code) st ls)
     = terminalOutputBySession st"
  by (induction ls arbitrary: st) simp_all



lemma call_exit_listener_other:
  "l \<noteq> AppExitListener \<Longrightarrow> call_exit_listener st l s code = st"
  by (cases l) (simp_all add: call_exit_listener_def)


lemma call_output_listener_invocations [simp]:
  "invocations (call_output_listener st l s d) = invocations st"
  by (simp add: call_output_listener_def split: bridge_listener.splits option.splits)

lemma appendTerminalOutput_notify_invocations [simp]:
  "invocations (appendTerminalOutput_notify st s d) = invocations st"
proof -
  have "invocations (foldl (\<lambda>st l. call_output_listener st l s d) st' ls) = invocations st'" for st' ls
    by (induction ls arbitrary: st') simp_all
  then show ?thesis by (simp add: appendTerminalOutput_notify_def Let_def)
qed














section \<open>The maps of panes and sessions stay in agreement\<close>

text \<open>
  Every operation of the controller keeps the two maps in agreement, provided the backend
  does not give a session id that another pane is mapped to.
\<close>

lemma resizeTerminal_maps [simp]:
  "paneSessionMapRef (fst (resizeTerminal rt st sid cols rows)) = paneSessionMapRef st"
  "sessionPaneMapRef (fst (resizeTerminal rt st sid cols rows)) = sessionPaneMapRef st"
  by (simp_all add: resizeTerminal_def Let_def split: prod.splits sum.splits)

lemma resizePaneTerminal_maps [simp]:
  "paneSessionMapRef (resizePaneTerminal rt fit st p) = paneSessionMapRef st"
  "sessionPaneMapRef (resizePaneTerminal rt fit st p) = sessionPaneMapRef st"
  by (simp_all add: resizePaneTerminal_def Let_def split: option.splits)

lemma call_output_listener_maps [simp]:
  "paneSessionMapRef (call_output_listener st l s d) = paneSessionMapRef st"
  "sessionPaneMapRef (call_output_listener st l s d) = sessionPaneMapRef st"
  by (simp_all add: call_output_listener_def split: bridge_listener.splits option.splits)

lemma appendTerminalOutput_notify_maps [simp]:
  "paneSessionMapRef (appendTerminalOutput_notify st s d) = paneSessionMapRef st"
  "sessionPaneMapRef (appendTerminalOutput_notify st s d) = sessionPaneMapRef st"
proof -
  have "paneSessionMapRef (foldl (\<lambda>st l. call_output_listener st l s d) st' ls) = paneSessionMapRef st'
      \<and> sessionPaneMapRef (foldl (\<lambda>st l. call_output_listener st l s d) st' ls) = sessionPaneMapRef st'"
    for st' ls
    by (induction ls arbitrary: st') simp_all
  then show "paneSessionMapRef (appendTerminalOutput_notify st s d) = paneSessionMapRef st"
    "sessionPaneMapRef (appendTerminalOutput_notify st s d) = sessionPaneMapRef st"
    by (simp_all add: appendTerminalOutput_notify_def Let_def)
qed

lemma writeTerminal_maps [simp]:
  "paneSessionMapRef (fst (writeTerminal rt st sid d)) = paneSessionMapRef st"
  "sessionPaneMapRef (fst (writeTerminal rt st sid d)) = sessionPaneMapRef st"
  by (simp_all add: writeTerminal_def Let_def split: prod.splits sum.splits)

lemma pane_onData_maps [simp]:
  "paneSessionMapRef (pane_onData rt st p d) = paneSessionMapRef st"
  "sessionPaneMapRef (pane_onData rt st p d) = sessionPaneMapRef st"
proof -
  have "paneSessionMapRef (pane_onData rt st p d) = paneSessionMapRef st
      \<and> sessionPaneMapRef (pane_onData rt st p d) = sessionPaneMapRef st"
  proof (cases "paneSessionMapRef st p")
    case None
    then show ?thesis by (simp add: pane_onData_def)
  next
    case (Some sid)
    obtain st1 res where w: "writeTerminal rt st sid d = (st1, res)" by (cases "writeTerminal rt st sid d")
    have "paneSessionMapRef st1 = paneSessionMapRef st" "sessionPaneMapRef st1 = sessionPaneMapRef st"
      using writeTerminal_maps[of rt st sid d] w by simp_all
    then show ?thesis using Some w by (cases res) (simp_all add: pane_onData_def)
  qed
  then show "paneSessionMapRef (pane_onData rt st p d) = paneSessionMapRef st"
    "sessionPaneMapRef (pane_onData rt st p d) = sessionPaneMapRef st" by simp_all
qed

lemma createTerminal_maps [simp]:
  "paneSessionMapRef (fst (createTerminal rt st req mockId)) = paneSessionMapRef st"
  "sessionPaneMapRef (fst (createTerminal rt st req mockId)) = sessionPaneMapRef st"
  by (simp_all add: createTerminal_def split: prod.splits sum.splits response.splits)

lemma maps_agree_ensure: "maps_agree st \<Longrightarrow> maps_agree (snd (ensurePaneSession st p))"
  by (simp add: maps_agree_def)

lemma maps_agree_resume: "maps_agree st \<Longrightarrow> maps_agree (snd (ensurePaneSession_resume st p n))"
  by (simp add: maps_agree_def ensurePaneSession_resume_def issueCreate_def Let_def split: option.splits)

lemma maps_agree_resize: "maps_agree st \<Longrightarrow> maps_agree (resizePaneTerminal rt fit st p)"
  by (simp add: maps_agree_def)

lemma maps_agree_onData: "maps_agree st \<Longrightarrow> maps_agree (pane_onData rt st p d)"
  by (simp add: maps_agree_def)

lemma maps_agree_dispose: "maps_agree st \<Longrightarrow> maps_agree (disposePaneRuntime rt st p k r)"
  unfolding maps_agree_def disposePaneRuntime_maps
  by (auto split: option.splits if_splits) (metis option.inject)+

lemma maps_agree_rejected: "maps_agree st \<Longrightarrow> maps_agree (createSession_rejected st p q e)"
  by (simp add: maps_agree_def createSession_rejected_def Let_def)

lemma maps_agree_fulfilled:
  assumes "maps_agree st" and "\<forall>p'. p' \<noteq> p \<longrightarrow> paneSessionMapRef st p' \<noteq> Some sid"
  shows "maps_agree (createSession_fulfilled rt fit st p q sid)"
  using assms by (auto simp: maps_agree_def createSession_fulfilled_def Let_def)

lemma maps_agree_exit_listener: "maps_agree st \<Longrightarrow> maps_agree (call_exit_listener st l s code)"
proof (cases "l = AppExitListener")
  case False
  assume "maps_agree st"
  with False show ?thesis by (simp add: call_exit_listener_other)
next
  case True
  assume a: "maps_agree st"
  show ?thesis
  proof (cases "sessionPaneMapRef st s")
    case None
    with a True show ?thesis by (simp add: call_exit_listener_def)
  next
    case (Some paneId)
    show ?thesis
    proof (cases "paneId = []")
      case True
      with a Some \<open>l = AppExitListener\<close> show ?thesis by (simp add: call_exit_listener_def)
    next
      case False
      have "\<forall>p s'. p \<noteq> paneId \<and> paneSessionMapRef st p = Some s' \<longrightarrow> s' \<noteq> s"
        using a Some by (auto simp: maps_agree_def)
      with a Some False \<open>l = AppExitListener\<close> show ?thesis
        by (auto simp: call_exit_listener_def maps_agree_def Let_def split: option.splits)
    qed
  qed
qed

lemma maps_agree_handleTerminalExit: "maps_agree st \<Longrightarrow> maps_agree (handleTerminalExit st s code)"
proof -
  have "maps_agree st' \<Longrightarrow> maps_agree (foldl (\<lambda>st l. call_exit_listener st l s code) st' ls)" for st' ls
    by (induction ls arbitrary: st') (simp_all add: maps_agree_exit_listener)
  moreover assume "maps_agree st"
  ultimately show ?thesis
    by (simp add: handleTerminalExit_def Let_def maps_agree_def)
qed

section \<open>The scenario of the specification\<close>

text \<open>
  The pane asks for a session and the backend creates \<open>"s1"\<close>; the keystrokes are written
  to \<open>"s1"\<close>; an output event is shown on the pane; on the exit event the mapping of the
  pane is cleared, its status becomes success and, the pane being still there, a new
  creation is issued.
\<close>

lemma scenario1_eq:
  "scenario1 = app3\<lparr>createCalls := [(0, pane1, CreateRequest None 80 24)],
                    nextPromise := 1,
                    invocations := [(''terminal_create'', Wrapped (CreateRequest None 80 24)),
                                    (''terminal_resize'', Wrapped (ResizeRequest sid1 80 24))],
                    terminalOutputBySession := [sid1 \<mapsto> []],
                    paneSessionMapRef := [pane1 \<mapsto> sid1],
                    sessionPaneMapRef := [sid1 \<mapsto> pane1],
                    terminalPanes := [pane1 \<mapsto> (Some sid1, StatusIdle)],
                    settled := [0 \<mapsto> Inr sid1]\<rparr>"
  by (simp add: scenario1_def settleCreate_def createTerminal_def invokeWithFallbacks_def
        invokeCommand_def scenario_backend_def createSession_fulfilled_def updatePane_def
        resizePaneTerminal_def resizeTerminal_def ensurePaneSession_def issueCreate_def
        app3_def empty_app_def truthy_def Let_def)

lemma scenario2_eq:
  "scenario2 = scenario1\<lparr>invocations := invocations scenario1
                              @ [(''terminal_write'', Wrapped (WriteRequest sid1 [0x6C, 0x73, 0x0A]))],
                          terminalOutputBySession := [sid1 \<mapsto> [0x66, 0x0A]],
                          surface := [(pane1, Output [0x66, 0x0A])]\<rparr>"
  by (simp add: scenario2_def scenario1_eq pane_onData_def writeTerminal_def invokeWithFallbacks_def
        invokeCommand_def scenario_backend_def appendTerminalOutput_notify_def appendTerminalOutput_def
        call_output_listener_def js_slice_def app3_def empty_app_def Let_def)

lemma scenario3_eq:
  "scenario3 = scenario2\<lparr>terminalOutputBySession := Map.empty,
                          paneSessionMapRef := Map.empty,
                          sessionPaneMapRef := Map.empty,
                          surface := [(pane1, Output [0x66, 0x0A]), (pane1, ExitMarker 0)],
                          terminalPanes := [pane1 \<mapsto> (None, StatusSuccess)],
                          createCalls := [(0, pane1, CreateRequest None 80 24),
                                          (1, pane1, CreateRequest None 80 24)],
                          creatingSessionRef := [pane1 \<mapsto> 1],
                          nextPromise := 2\<rparr>"
  by (simp add: scenario3_def scenario2_eq scenario1_eq handleTerminalExit_def call_exit_listener_def
        updatePane_def ensurePaneSession_def issueCreate_def truthy_def app3_def empty_app_def Let_def
        fun_upd_twist)

end
